theory Spec2Isabelle
  imports Complex_Main "HOL-Library.Sublist"
begin

section \<open>The API enumeration (API.py)\<close>

datatype API = SIMPLE_ION | ITERATOR | NON_BLOCKING

fun API_value :: "API \<Rightarrow> string" where
  "API_value SIMPLE_ION = ''simpleIon''"
| "API_value ITERATOR = ''iterator''"
| "API_value NON_BLOCKING = ''nonBlocking''"

section \<open>Python values the program handles\<close>

text \<open>
  The exceptions that can leave the program. \<open>Exception msg\<close> is the plain
  \<^verbatim>\<open>raise Exception(msg)\<close> of the source, the way the program rejects an argument.
  The others are raised by the interpreter or a library: \<open>ValueError\<close> by \<^verbatim>\<open>int(...)\<close>,
  \<open>TypeError\<close> by unpacking \<^verbatim>\<open>None\<close> or by \<^verbatim>\<open>Path(None)\<close>, \<open>ZeroDivisionError\<close> by
  \<^verbatim>\<open>/\<close>, \<open>OSError\<close> by \<^verbatim>\<open>Path.stat\<close>, and \<open>StatementError\<close> stands for whatever
  the timed statement or its setup raises inside \<^verbatim>\<open>timeit.timeit\<close>.
\<close>

datatype error =
    Exception string
  | ValueError
  | TypeError
  | ZeroDivisionError
  | OSError
  | StatementError

subsection \<open>Number formatting\<close>

text \<open>
  Timings are Python floats; they are modelled by the real number a float denotes, and
  float arithmetic by real arithmetic (rounding of \<^verbatim>\<open>-\<close> and \<^verbatim>\<open>/\<close> is not modelled).
  \<open>format_2e\<close> is \<^verbatim>\<open>"{:.2e}".format(x)\<close> and \<open>format_pct\<close> is \<^verbatim>\<open>"{:.2%}".format(x)\<close>:
  the digits of the exact value, rounded half to even.
\<close>

definition round_half_even :: "real \<Rightarrow> int" where
  "round_half_even x =
     (let f = \<lfloor>x\<rfloor>; d = x - of_int f
      in if d < 1 / 2 then f else if 1 / 2 < d then f + 1 else if even f then f else f + 1)"

function scale_down :: "real \<Rightarrow> int \<Rightarrow> real \<times> int" where
  "scale_down x e = (if x < 10 then (x, e) else scale_down (x / 10) (e + 1))"
  by pat_completeness auto
termination
proof (relation "measure (\<lambda>(x, e). nat \<lfloor>x\<rfloor>)")
  show "wf (measure (\<lambda>(x::real, e::int). nat \<lfloor>x\<rfloor>))" by simp
next
  fix x :: real and e :: int
  assume "\<not> x < 10"
  then have "x / 10 < of_int \<lfloor>x\<rfloor>" and "0 < \<lfloor>x\<rfloor>" by linarith+
  then have "\<lfloor>x / 10\<rfloor> < \<lfloor>x\<rfloor>" by (simp add: floor_less_iff)
  with \<open>0 < \<lfloor>x\<rfloor>\<close> show "((x / 10, e + 1), (x, e)) \<in> measure (\<lambda>(x, e). nat \<lfloor>x\<rfloor>)"
    by simp
qed

function scale_up :: "real \<Rightarrow> int \<Rightarrow> real \<times> int" where
  "scale_up x e = (if x \<le> 0 \<or> 1 \<le> x then (x, e) else scale_up (x * 10) (e - 1))"
  by pat_completeness auto
termination
proof (relation "measure (\<lambda>(x, e). nat \<lfloor>1 / x\<rfloor>)")
  show "wf (measure (\<lambda>(x::real, e::int). nat \<lfloor>1 / x\<rfloor>))" by simp
next
  fix x :: real and e :: int
  assume "\<not> (x \<le> 0 \<or> 1 \<le> x)"
  then have x: "0 < x" "x < 1" by simp_all
  define y where "y = 1 / x"
  have y: "1 < y" using x by (simp add: y_def)
  have eq: "1 / (x * 10) = y / 10" by (simp add: y_def)
  from y have pos: "0 < \<lfloor>y\<rfloor>" by linarith
  then have "1 \<le> real_of_int \<lfloor>y\<rfloor>" by simp
  moreover have "y - 1 < real_of_int \<lfloor>y\<rfloor>" by linarith
  ultimately have "y / 10 < of_int \<lfloor>y\<rfloor>" by linarith
  then have "\<lfloor>y / 10\<rfloor> < \<lfloor>y\<rfloor>" by (simp add: floor_less_iff)
  with pos show "((x * 10, e - 1), (x, e)) \<in> measure (\<lambda>(x, e). nat \<lfloor>1 / x\<rfloor>)"
    unfolding eq in_measure prod.case y_def[symmetric] by simp
qed

declare scale_down.simps [simp del]
declare scale_up.simps [simp del]

definition digit_char :: "nat \<Rightarrow> char" where
  "digit_char d = ''0123456789'' ! (d mod 10)"

fun decimal :: "nat \<Rightarrow> string" where
  "decimal n = (if n < 10 then [digit_char n] else decimal (n div 10) @ [digit_char (n mod 10)])"

declare decimal.simps [simp del]

definition pad2 :: "string \<Rightarrow> string" where
  "pad2 s = (if length s < 2 then ''0'' @ s else s)"

definition format_2e :: "real \<Rightarrow> string" where
  "format_2e x =
     (if x = 0 then ''0.00e+00''
      else
        let a = \<bar>x\<bar>;
            (m, e) = (if 1 \<le> a then scale_down a 0 else scale_up a 0);
            n = round_half_even (m * 100);
            (n', e') = (if 1000 \<le> n then (100, e + 1) else (n, e));
            d = nat n'
        in (if x < 0 then ''-'' else [])
           @ [digit_char (d div 100)] @ ''.''
           @ [digit_char (d div 10 mod 10), digit_char (d mod 10)]
           @ ''e'' @ (if e' < 0 then ''-'' else ''+'') @ pad2 (decimal (nat \<bar>e'\<bar>)))"

definition format_pct :: "real \<Rightarrow> string" where
  "format_pct x =
     (let n = nat (round_half_even (\<bar>x\<bar> * 100 * 100))
      in (if x < 0 then ''-'' else [])
         @ decimal (n div 100) @ ''.''
         @ [digit_char (n div 10 mod 10), digit_char (n mod 10)] @ ''%'')"

text \<open>
  A cell of the report table. The source passes either a formatted string or a literal;
  a formatted cell keeps the number it was formatted from, and \<open>render\<close> gives the text
  that is displayed.
\<close>

datatype cell =
    Sci real         \<comment> \<open>\<^verbatim>\<open>"{:.2e}".format(x)\<close>\<close>
  | Pct real         \<comment> \<open>\<^verbatim>\<open>"{:.2%}".format(x)\<close>\<close>
  | IntLit int       \<comment> \<open>an int literal\<close>
  | StrLit string    \<comment> \<open>a string literal\<close>

fun render :: "cell \<Rightarrow> string" where
  "render (Sci x) = format_2e x"
| "render (Pct x) = format_pct x"
| "render (IntLit i) = (if i < 0 then ''-'' else []) @ decimal (nat \<bar>i\<bar>)"
| "render (StrLit s) = s"

section \<open>The world outside the program\<close>

text \<open>
  What the interpreter and the libraries answer is a parameter of the model:
  \<^item> \<open>py_int\<close>: the builtin \<^verbatim>\<open>int\<close> on a string, \<open>None\<close> where it raises;
  \<^item> \<open>st_size\<close>: \<^verbatim>\<open>Path(file).stat().st_size\<close>, \<open>None\<close> where \<^verbatim>\<open>stat\<close> raises;
  \<^item> \<open>timeit\<close>: what the \<open>k\<close>-th call of \<^verbatim>\<open>timeit.timeit(stmt, setup, number)\<close> of the
    process returns, as the elapsed seconds together with the highest amount of traced
    memory (bytes) reached while it ran, \<open>None\<close> where the call raises.
\<close>

record env =
  py_int :: "string \<Rightarrow> int option"
  st_size :: "string \<Rightarrow> nat option"
  timeit :: "nat \<Rightarrow> string \<Rightarrow> string \<Rightarrow> int \<Rightarrow> (real \<times> nat) option"

datatype printed = Line string | Table "cell list list" | HelpScreen

datatype event =
    TracemallocStart
  | GetTracedMemory
  | TracemallocStop
  | Stat string
  | Timeit string string int
  | Print printed

text \<open>
  The state of the process: how many \<^verbatim>\<open>timeit.timeit\<close> calls were made, the state of
  \<^verbatim>\<open>tracemalloc\<close> (tracing or not, peak of traced memory in bytes), and the effects so
  far, oldest first.
\<close>

record state =
  calls :: nat
  tracing :: bool
  traced_peak :: nat
  events :: "event list"

definition init_state :: state where
  "init_state = \<lparr>calls = 0, tracing = False, traced_peak = 0, events = []\<rparr>"

definition stdout :: "state \<Rightarrow> printed list" where
  "stdout s = concat (map (\<lambda>ev. case ev of Print out \<Rightarrow> [out] | _ \<Rightarrow> []) (events s))"

type_synonym 'a result = "(error + 'a) \<times> state"

definition and_then :: "'a result \<Rightarrow> ('a \<Rightarrow> state \<Rightarrow> 'b result) \<Rightarrow> 'b result" where
  "and_then m f = (case m of (Inl e, s) \<Rightarrow> (Inl e, s) | (Inr x, s) \<Rightarrow> f x s)"

definition emit :: "event \<Rightarrow> state \<Rightarrow> state" where
  "emit ev s = s\<lparr>events := events s @ [ev]\<rparr>"

definition tracemalloc_start :: "state \<Rightarrow> unit result" where
  "tracemalloc_start s =
     (Inr (), emit TracemallocStart
        (s\<lparr>tracing := True, traced_peak := (if tracing s then traced_peak s else 0)\<rparr>))"

definition tracemalloc_get_traced_memory_peak :: "state \<Rightarrow> nat result" where
  "tracemalloc_get_traced_memory_peak s =
     (Inr (if tracing s then traced_peak s else 0), emit GetTracedMemory s)"

definition tracemalloc_stop :: "state \<Rightarrow> unit result" where
  "tracemalloc_stop s =
     (Inr (), emit TracemallocStop (s\<lparr>tracing := False, traced_peak := 0\<rparr>))"

definition path_stat_st_size :: "env \<Rightarrow> string option \<Rightarrow> state \<Rightarrow> nat result" where
  "path_stat_st_size E file s =
     (case file of
        None \<Rightarrow> (Inl TypeError, s)
      | Some f \<Rightarrow>
          (case st_size E f of
             None \<Rightarrow> (Inl OSError, emit (Stat f) s)
           | Some n \<Rightarrow> (Inr n, emit (Stat f) s)))"

definition timeit_timeit :: "env \<Rightarrow> string \<Rightarrow> string \<Rightarrow> int \<Rightarrow> state \<Rightarrow> real result" where
  "timeit_timeit E stmt setup number s =
     (let s1 = emit (Timeit stmt setup number) (s\<lparr>calls := Suc (calls s)\<rparr>)
      in case timeit E (calls s) stmt setup number of
           None \<Rightarrow> (Inl StatementError, s1)
         | Some (t, high) \<Rightarrow>
             (Inr t, if tracing s then s1\<lparr>traced_peak := max (traced_peak s) high\<rparr> else s1))"

definition truediv :: "real \<Rightarrow> real \<Rightarrow> state \<Rightarrow> real result" where
  "truediv x y s = (if y = 0 then (Inl ZeroDivisionError, s) else (Inr (x / y), s))"

definition print :: "printed \<Rightarrow> state \<Rightarrow> unit result" where
  "print out s = (Inr (), emit (Print out) s)"

definition str_bool :: "bool \<Rightarrow> string" where
  "str_bool b = (if b then ''True'' else ''False'')"

definition falsy :: "string option \<Rightarrow> bool" where
  "falsy v = (v = None \<or> v = Some [])"

section \<open>The benchmark (ion\_python\_benchmark\_cli.py)\<close>

definition BYTES_TO_MB :: nat where
  "BYTES_TO_MB = 1024 * 1024"

definition generate_simpleion_load_test_code :: "string \<Rightarrow> bool \<Rightarrow> bool \<Rightarrow> string" where
  "generate_simpleion_load_test_code file single_value emit_bare_values =
     ''with open(\"'' @ file @ ''\", \"br\") as fp: ion.load(fp, single_value=''
       @ str_bool single_value @ '', emit_bare_values='' @ str_bool emit_bare_values @ '');''"

definition generate_simpleion_load_setup :: "bool \<Rightarrow> string" where
  "generate_simpleion_load_setup gc =
     (let rtn = ''import amazon.ion.simpleion as ion''
      in if gc then rtn @ ''; import gc; gc.enable();'' else rtn)"

text \<open>
  What a benchmark function returns: the tuple \<open>(file_size, result_with_gc,
  result_without_gc, result_with_raw_value)\<close>, or \<open>None\<close> for a body that is \<^verbatim>\<open>pass\<close>.
\<close>

type_synonym samples = "real \<times> real \<times> real \<times> real"
type_synonym benchmark = "int \<Rightarrow> int \<Rightarrow> string option \<Rightarrow> state \<Rightarrow> samples option result"

definition read_micro_benchmark_simpleion :: "env \<Rightarrow> benchmark" where
  "read_micro_benchmark_simpleion E iterations warmups file s =
     and_then (path_stat_st_size E file s) (\<lambda>size s.
       let file_size = real size / real BYTES_TO_MB;
           setup_without_gc = generate_simpleion_load_setup False;
           setup_with_gc = generate_simpleion_load_setup True;
           test_code = generate_simpleion_load_test_code (the file) False False;
           test_code_without_wrapper = generate_simpleion_load_test_code (the file) False True
       in
       and_then (timeit_timeit E test_code setup_with_gc warmups s) (\<lambda>_ s.
       and_then (timeit_timeit E test_code setup_without_gc warmups s) (\<lambda>_ s.
       and_then (timeit_timeit E test_code_without_wrapper setup_without_gc warmups s) (\<lambda>_ s.
       and_then (timeit_timeit E test_code setup_with_gc iterations s) (\<lambda>t s.
       and_then (truediv t (of_int iterations) s) (\<lambda>result_with_gc s.
       and_then (timeit_timeit E test_code setup_without_gc iterations s) (\<lambda>t s.
       and_then (truediv t (of_int iterations) s) (\<lambda>result_without_gc s.
       and_then (timeit_timeit E test_code_without_wrapper setup_without_gc iterations s) (\<lambda>t s.
       and_then (truediv t (of_int iterations) s) (\<lambda>result_with_raw_value s.
         (Inr (Some (file_size, result_with_gc, result_without_gc, result_with_raw_value)),
          s)))))))))))"

definition read_micro_benchmark_iterator :: benchmark where
  "read_micro_benchmark_iterator iterations warmups file s = (Inr None, s)"

definition read_micro_benchmark_non_blocking :: benchmark where
  "read_micro_benchmark_non_blocking iterations warmups file s = (Inr None, s)"

definition header :: "cell list" where
  "header =
     [StrLit ''file_size (MB)'', StrLit ''total_time (s)'', StrLit ''execution_time (s)'',
      StrLit ''garbage_collection_time (s)'',
      StrLit ''garbage_collection_time/total_time (%)'', StrLit ''conversion_time (s)'',
      StrLit ''conversion_time/total_time (%)'', StrLit ''memory_usage_peak (MB)'']"

definition read_generate_report ::
  "cell \<Rightarrow> cell \<Rightarrow> cell \<Rightarrow> cell \<Rightarrow> cell \<Rightarrow> cell \<Rightarrow> cell \<Rightarrow> cell \<Rightarrow> state \<Rightarrow> unit result" where
  "read_generate_report file_size total_time execution_time garbage_collection_time
       gc_time_percentage conversion_time wrapper_time_percentage memory_usage_peak s =
     (let table =
            [header,
             [file_size, total_time, execution_time, garbage_collection_time,
              gc_time_percentage, conversion_time, wrapper_time_percentage,
              memory_usage_peak]]
      in print (Table table) s)"

text \<open>
  \<open>read_micro_benchmark_and_profiling\<close> is given in two parts. \<open>calculate_metrics\<close> is
  its second half, from the comment \<^verbatim>\<open># calculate metrics\<close> on: the two subtractions and
  the call of \<open>read_generate_report\<close>, whose arguments are evaluated in order (a
  percentage divides by \<open>result_with_gc\<close> only where its overhead is positive).
\<close>

definition calculate_metrics ::
  "real \<Rightarrow> real \<Rightarrow> real \<Rightarrow> real \<Rightarrow> real \<Rightarrow> state \<Rightarrow> unit result" where
  "calculate_metrics file_size result_with_gc result_without_gc result_with_raw_value
       memory_usage_peak s =
     (let garbage_collection_time = result_with_gc - result_without_gc;
          conversion_time = result_without_gc - result_with_raw_value
      in
      and_then
        (if garbage_collection_time > 0
         then and_then (truediv garbage_collection_time result_with_gc s)
                (\<lambda>r s. (Inr (Pct r), s))
         else (Inr (StrLit ''0%''), s))
        (\<lambda>gc_time_percentage s.
      and_then
        (if conversion_time > 0
         then and_then (truediv conversion_time result_with_gc s)
                (\<lambda>r s. (Inr (Pct r), s))
         else (Inr (StrLit ''0%''), s))
        (\<lambda>wrapper_time_percentage s.
      read_generate_report
        (Sci file_size)
        (Sci result_with_gc)
        (Sci result_without_gc)
        (if garbage_collection_time > 0 then Sci garbage_collection_time else IntLit 0)
        gc_time_percentage
        (if conversion_time > 0 then Sci conversion_time else IntLit 0)
        wrapper_time_percentage
        (Sci memory_usage_peak)
        s)))"

definition read_micro_benchmark_and_profiling ::
  "benchmark option \<Rightarrow> int \<Rightarrow> int \<Rightarrow> string option \<Rightarrow> state \<Rightarrow> unit result" where
  "read_micro_benchmark_and_profiling read_micro_benchmark_function iterations warmups file s =
     (if falsy file then (Inl (Exception ''Invalid file: file can not be none.''), s)
      else case read_micro_benchmark_function of
        None \<Rightarrow>
          (Inl (Exception
             ''Invalid micro benchmark function: micro benchmark function can not be none.''),
           s)
      | Some f \<Rightarrow>
          and_then (tracemalloc_start s) (\<lambda>_ s.
          and_then (f iterations warmups file s) (\<lambda>r s.
            case r of
              None \<Rightarrow> (Inl TypeError, s)
            | Some (file_size, result_with_gc, result_without_gc, result_with_raw_value) \<Rightarrow>
                and_then (tracemalloc_get_traced_memory_peak s) (\<lambda>peak s.
                let memory_usage_peak = real peak / real BYTES_TO_MB in
                and_then (tracemalloc_stop s) (\<lambda>_ s.
                calculate_metrics file_size result_with_gc result_without_gc
                  result_with_raw_value memory_usage_peak s)))))"

text \<open>
  The dictionary \<^verbatim>\<open>docopt\<close> returns: \<^verbatim>\<open><input_file>\<close> and \<^verbatim>\<open>--api\<close> are \<^verbatim>\<open>None\<close> when
  absent, \<^verbatim>\<open>--iterations\<close> and \<^verbatim>\<open>--warmups\<close> are always strings (their default is
  \<^verbatim>\<open>10\<close>), the three commands are booleans.
\<close>

record arguments =
  arg_input_file :: "string option"
  arg_iterations :: string
  arg_warmups :: string
  arg_api :: "string option"
  arg_read :: bool
  arg_write :: bool
  arg_generate :: bool

definition int_of_str :: "env \<Rightarrow> string \<Rightarrow> state \<Rightarrow> int result" where
  "int_of_str E v s = (case py_int E v of None \<Rightarrow> (Inl ValueError, s) | Some n \<Rightarrow> (Inr n, s))"

definition ion_python_benchmark_cli :: "env \<Rightarrow> arguments \<Rightarrow> state \<Rightarrow> unit result" where
  "ion_python_benchmark_cli E arguments s =
     (if falsy (arg_input_file arguments) then (Inl (Exception ''Invalid input file''), s)
      else
        let file = arg_input_file arguments in
        and_then (int_of_str E (arg_iterations arguments) s) (\<lambda>iterations s.
        and_then (int_of_str E (arg_warmups arguments) s) (\<lambda>warmups s.
          if arg_read arguments then
            let api = arg_api arguments in
            and_then
              (if falsy api \<or> api = Some (API_value SIMPLE_ION)
                 then (Inr (Some (read_micro_benchmark_simpleion E)), s)
               else if api = Some (API_value ITERATOR)
                 then (Inr (Some read_micro_benchmark_iterator), s)
               else if api = Some (API_value NON_BLOCKING)
                 then (Inr (Some read_micro_benchmark_non_blocking), s)
               else (Inl (Exception (''Invalid API option '' @ the api @ ''.'')), s))
              (\<lambda>read_micro_benchmark_function s.
                 read_micro_benchmark_and_profiling read_micro_benchmark_function
                   iterations warmups file s)
          else if arg_write arguments then print (Line ''Write feature is not supported yet'') s
          else if arg_generate arguments
            then print (Line ''Generate feature is not supported yet'') s
          else (Inr (), s))))"

subsection \<open>The command line\<close>

text \<open>
  The usage patterns of the module docstring:
  \<^verbatim>\<open>write\<close>, \<^verbatim>\<open>read [--api <api>] [--warmups <int>] [--iterations <int>] <input_file>\<close>,
  \<^verbatim>\<open>generate\<close> and \<^verbatim>\<open>(-h | --help)\<close>. \<open>docopt\<close> is the dictionary \<^verbatim>\<open>docopt(__doc__)\<close>
  builds for a command line that matches one of them: an element that the matched pattern
  does not have is \<^verbatim>\<open>None\<close> or \<^verbatim>\<open>False\<close>, and an option left out takes its default. For
  the help pattern docopt prints the usage text and exits, which is \<open>None\<close> here.
\<close>

datatype command_line =
    CmdWrite
  | CmdRead "string option" "string option" "string option" string
      \<comment> \<open>\<^verbatim>\<open>--api\<close>, \<^verbatim>\<open>--warmups\<close>, \<^verbatim>\<open>--iterations\<close>, \<^verbatim>\<open><input_file>\<close>\<close>
  | CmdGenerate
  | CmdHelp

definition default_args :: arguments where
  "default_args =
     \<lparr>arg_input_file = None, arg_iterations = ''10'', arg_warmups = ''10'', arg_api = None,
      arg_read = False, arg_write = False, arg_generate = False\<rparr>"

fun docopt :: "command_line \<Rightarrow> arguments option" where
  "docopt CmdWrite = Some (default_args\<lparr>arg_write := True\<rparr>)"
| "docopt (CmdRead api warmups iterations input_file) =
     Some (default_args
       \<lparr>arg_input_file := Some input_file,
        arg_iterations := (case iterations of None \<Rightarrow> ''10'' | Some v \<Rightarrow> v),
        arg_warmups := (case warmups of None \<Rightarrow> ''10'' | Some v \<Rightarrow> v),
        arg_api := api,
        arg_read := True\<rparr>)"
| "docopt CmdGenerate = Some (default_args\<lparr>arg_generate := True\<rparr>)"
| "docopt CmdHelp = None"

text \<open>
  The \<^verbatim>\<open>__main__\<close> block, with the exit status of the process: 0 when the call returns
  (or docopt showed the help), 1 when an exception leaves it.
\<close>

definition main_block :: "env \<Rightarrow> command_line \<Rightarrow> state \<Rightarrow> nat \<times> state" where
  "main_block E cl s =
     (case docopt cl of
        None \<Rightarrow> (0, emit (Print HelpScreen) s)
      | Some arguments \<Rightarrow>
          (case ion_python_benchmark_cli E arguments s of
             (Inl e, s') \<Rightarrow> (1, s')
           | (Inr _, s') \<Rightarrow> (0, s')))"

section \<open>Reading a run\<close>

text \<open>
  What the oracle answered at the \<open>k\<close>-th \<^verbatim>\<open>timeit.timeit\<close> call: the elapsed seconds and
  the high-water mark of traced memory (both 0 where the call raised).
\<close>

definition elapsed :: "env \<Rightarrow> nat \<Rightarrow> string \<Rightarrow> string \<Rightarrow> int \<Rightarrow> real" where
  "elapsed E k stmt setup n = (case timeit E k stmt setup n of Some (t, h) \<Rightarrow> t | None \<Rightarrow> 0)"

definition high_water :: "env \<Rightarrow> nat \<Rightarrow> string \<Rightarrow> string \<Rightarrow> int \<Rightarrow> nat" where
  "high_water E k stmt setup n = (case timeit E k stmt setup n of Some (t, h) \<Rightarrow> h | None \<Rightarrow> 0)"

text \<open>
  The three mean timing samples of a run that starts in state \<open>s\<close> on file \<open>f\<close> with
  \<open>n\<close> iterations. The run makes six \<^verbatim>\<open>timeit.timeit\<close> calls: the warm-ups of the
  variants A, B, C, then their timed executions. \<open>sample_A\<close> is the mean of the timed
  variant A (collector enabled, wrapped values), \<open>sample_B\<close> of B (setup without the
  collector, wrapped values), \<open>sample_C\<close> of C (setup without the collector, bare values).
\<close>

definition sample_A :: "env \<Rightarrow> state \<Rightarrow> string \<Rightarrow> int \<Rightarrow> real" where
  "sample_A E s f n =
     elapsed E (calls s + 3) (generate_simpleion_load_test_code f False False)
       (generate_simpleion_load_setup True) n / of_int n"

definition sample_B :: "env \<Rightarrow> state \<Rightarrow> string \<Rightarrow> int \<Rightarrow> real" where
  "sample_B E s f n =
     elapsed E (calls s + 4) (generate_simpleion_load_test_code f False False)
       (generate_simpleion_load_setup False) n / of_int n"

definition sample_C :: "env \<Rightarrow> state \<Rightarrow> string \<Rightarrow> int \<Rightarrow> real" where
  "sample_C E s f n =
     elapsed E (calls s + 5) (generate_simpleion_load_test_code f False True)
       (generate_simpleion_load_setup False) n / of_int n"

text \<open>The outcome of a call of \<open>ion_python_benchmark_cli\<close> and the state it leaves.\<close>

definition run_result :: "env \<Rightarrow> arguments \<Rightarrow> state \<Rightarrow> error + unit" where
  "run_result E args s = fst (ion_python_benchmark_cli E args s)"

definition run_state :: "env \<Rightarrow> arguments \<Rightarrow> state \<Rightarrow> state" where
  "run_state E args s = snd (ion_python_benchmark_cli E args s)"

text \<open>
  The data row of the table printed last, and the numbers its cells report: the seconds
  of a time cell, the ratio of a percentage cell (the literal \<^verbatim>\<open>"0%"\<close> is the ratio 0).
\<close>

definition report_row :: "state \<Rightarrow> cell list" where
  "report_row s = (case rev (stdout s) of Table [h, r] # _ \<Rightarrow> r | _ \<Rightarrow> [])"

fun reported_seconds :: "cell \<Rightarrow> real option" where
  "reported_seconds (Sci x) = Some x"
| "reported_seconds (IntLit i) = Some (of_int i)"
| "reported_seconds _ = None"

fun reported_ratio :: "cell \<Rightarrow> real option" where
  "reported_ratio (Pct r) = Some r"
| "reported_ratio (StrLit t) = (if t = ''0%'' then Some 0 else None)"
| "reported_ratio _ = None"

text \<open>
  The six high-water marks of a run, in the order of its \<^verbatim>\<open>timeit.timeit\<close> calls: the
  warm-ups of A, B, C with \<open>w\<close> executions each, then the timed A, B, C with \<open>n\<close>.
\<close>

definition run_high_waters :: "env \<Rightarrow> state \<Rightarrow> string \<Rightarrow> int \<Rightarrow> int \<Rightarrow> nat list" where
  "run_high_waters E s f w n =
     [high_water E (calls s) (generate_simpleion_load_test_code f False False)
        (generate_simpleion_load_setup True) w,
      high_water E (calls s + 1) (generate_simpleion_load_test_code f False False)
        (generate_simpleion_load_setup False) w,
      high_water E (calls s + 2) (generate_simpleion_load_test_code f False True)
        (generate_simpleion_load_setup False) w,
      high_water E (calls s + 3) (generate_simpleion_load_test_code f False False)
        (generate_simpleion_load_setup True) n,
      high_water E (calls s + 4) (generate_simpleion_load_test_code f False False)
        (generate_simpleion_load_setup False) n,
      high_water E (calls s + 5) (generate_simpleion_load_test_code f False True)
        (generate_simpleion_load_setup False) n]"

text \<open>The effects of a successful benchmark of file \<open>f\<close>, in order.\<close>

definition benchmark_events :: "string \<Rightarrow> int \<Rightarrow> int \<Rightarrow> event list" where
  "benchmark_events f w n =
     [Stat f,
      Timeit (generate_simpleion_load_test_code f False False)
        (generate_simpleion_load_setup True) w,
      Timeit (generate_simpleion_load_test_code f False False)
        (generate_simpleion_load_setup False) w,
      Timeit (generate_simpleion_load_test_code f False True)
        (generate_simpleion_load_setup False) w,
      Timeit (generate_simpleion_load_test_code f False False)
        (generate_simpleion_load_setup True) n,
      Timeit (generate_simpleion_load_test_code f False False)
        (generate_simpleion_load_setup False) n,
      Timeit (generate_simpleion_load_test_code f False True)
        (generate_simpleion_load_setup False) n]"

text \<open>
  The state after a \<^verbatim>\<open>timeit.timeit\<close> call that returned, and the eight arguments that
  \<open>calculate_metrics\<close> passes to \<open>read_generate_report\<close>.
\<close>

definition after_timeit :: "state \<Rightarrow> string \<Rightarrow> string \<Rightarrow> int \<Rightarrow> nat \<Rightarrow> state" where
  "after_timeit s stmt setup n h =
     s\<lparr>calls := Suc (calls s),
       traced_peak := (if tracing s then max (traced_peak s) h else traced_peak s),
       events := events s @ [Timeit stmt setup n]\<rparr>"

definition overhead_row :: "real \<Rightarrow> real \<Rightarrow> real \<Rightarrow> real \<Rightarrow> real \<Rightarrow> cell list" where
  "overhead_row fs a b c mem =
     [Sci fs, Sci a, Sci b,
      (if a - b > 0 then Sci (a - b) else IntLit 0),
      (if a - b > 0 then Pct ((a - b) / a) else StrLit ''0%''),
      (if b - c > 0 then Sci (b - c) else IntLit 0),
      (if b - c > 0 then Pct ((b - c) / a) else StrLit ''0%''),
      Sci mem]"

text \<open>The setups of the \<^verbatim>\<open>timeit.timeit\<close> calls among some effects, in order.\<close>

fun timeit_setups :: "event list \<Rightarrow> string list" where
  "timeit_setups [] = []"
| "timeit_setups (Timeit stmt setup n # evs) = setup # timeit_setups evs"
| "timeit_setups (ev # evs) = timeit_setups evs"

text \<open>
  The spec names its errors \<open>InvalidArgumentError\<close> and \<open>InvalidInputError\<close>; the program
  has no exception class of its own. \<open>InvalidArgumentError\<close> follows the spec's list
  (bad or missing command-line input, unknown \<^verbatim>\<open>--api\<close> value, zero iterations): the
  plain \<^verbatim>\<open>Exception\<close> with which the program rejects an argument, the \<open>ValueError\<close> of
  \<^verbatim>\<open>int\<close> on an option that is not an integer, and the \<open>ZeroDivisionError\<close> of dividing
  by zero iterations. An \<open>OSError\<close> of \<^verbatim>\<open>stat\<close> is the spec's \<open>InvalidInputError\<close>.
\<close>

fun InvalidArgumentError :: "error \<Rightarrow> bool" where
  "InvalidArgumentError (Exception msg) = True"
| "InvalidArgumentError ValueError = True"
| "InvalidArgumentError ZeroDivisionError = True"
| "InvalidArgumentError _ = False"

section \<open>Example runs\<close>

text \<open>
  \<open>int_of_decimal\<close> is \<^verbatim>\<open>int\<close> on plain decimal strings (digits with an optional minus
  sign), which is all the examples pass to it.
\<close>

fun digits_value :: "string \<Rightarrow> int \<Rightarrow> int option" where
  "digits_value [] acc = Some acc"
| "digits_value (c # cs) acc =
     (case map_of (zip ''0123456789'' [0, 1, 2, 3, 4, 5, 6, 7, 8, 9]) c of
        None \<Rightarrow> None
      | Some d \<Rightarrow> digits_value cs (10 * acc + d))"

definition int_of_decimal :: "string \<Rightarrow> int option" where
  "int_of_decimal v =
     (case v of
        [] \<Rightarrow> None
      | c # cs \<Rightarrow>
          if c = CHR ''-'' then (if cs = [] then None else map_option uminus (digits_value cs 0))
          else digits_value v 0)"

text \<open>
  A world with one file, \<^verbatim>\<open>data.ion\<close> of 10,485,760 bytes, in which the \<open>k\<close>-th
  \<^verbatim>\<open>timeit.timeit\<close> call answers the \<open>k\<close>-th entry of a list (elapsed seconds and
  high-water mark in bytes).
\<close>

definition oracle_env :: "(real \<times> nat) list \<Rightarrow> env" where
  "oracle_env answers =
     \<lparr>py_int = int_of_decimal,
      st_size = (\<lambda>f. if f = ''data.ion'' then Some 10485760 else None),
      timeit = (\<lambda>k stmt setup number. if k < length answers then Some (answers ! k) else None)\<rparr>"

text \<open>
  \<open>demo_env\<close>: the warm-ups take 6, 5 and 4.5 seconds and the timed runs 5, 4 and 4.5
  seconds; the warm-up of variant A reaches 5 MB of traced memory, the timed variants 3,
  4 and 2 MB. \<open>noise_env\<close>: the timed runs take 4, 5 and 5 seconds, so that no overhead
  is positive. \<open>skew_env\<close>: the timed runs take 1, 3 and 0.5 seconds.
\<close>

definition demo_env :: env where
  "demo_env = oracle_env
     [(6, 5242880), (5, 1048576), (9 / 2, 1048576),
      (5, 3145728), (4, 4194304), (9 / 2, 2097152)]"

definition noise_env :: env where
  "noise_env = oracle_env
     [(4, 1048576), (5, 1048576), (5, 1048576), (4, 1048576), (5, 1048576), (5, 1048576)]"

definition skew_env :: env where
  "skew_env = oracle_env
     [(1, 1048576), (3, 1048576), (1 / 2, 1048576),
      (1, 1048576), (3, 1048576), (1 / 2, 1048576)]"

text \<open>\<^verbatim>\<open>read data.ion\<close> with the default options, and with \<^verbatim>\<open>--iterations 1\<close>.\<close>

definition demo_args :: arguments where
  "demo_args = default_args\<lparr>arg_input_file := Some ''data.ion'', arg_read := True\<rparr>"

definition once_args :: arguments where
  "once_args = demo_args\<lparr>arg_iterations := ''1''\<rparr>"

section \<open>How a run unfolds\<close>

subsection \<open>Successful runs\<close>


lemma and_then_Inr:
  "and_then m f = (Inr y, s') \<longleftrightarrow> (\<exists>x s1. m = (Inr x, s1) \<and> f x s1 = (Inr y, s'))"
  by (cases m; cases "fst m") (auto simp: and_then_def)

lemma timeit_Inr:
  "timeit_timeit E stmt setup n s = (Inr t, s') \<longleftrightarrow>
     (\<exists>h. timeit E (calls s) stmt setup n = Some (t, h) \<and> s' = after_timeit s stmt setup n h)"
  by (auto simp: timeit_timeit_def after_timeit_def emit_def Let_def split: option.splits)

lemma truediv_Inr: "truediv x y s = (Inr q, s') \<longleftrightarrow> y \<noteq> 0 \<and> q = x / y \<and> s' = s"
  by (auto simp: truediv_def)

lemma stat_Inr:
  "path_stat_st_size E file s = (Inr n, s') \<longleftrightarrow>
     (\<exists>f. file = Some f \<and> st_size E f = Some n \<and> s' = emit (Stat f) s)"
  by (auto simp: path_stat_st_size_def split: option.splits)

lemma emit_simps [simp]:
  "calls (emit ev s) = calls s"
  "tracing (emit ev s) = tracing s"
  "events (emit ev s) = events s @ [ev]"
  "traced_peak (emit ev s) = traced_peak s"
  by (simp_all add: emit_def)

lemma timeit_step:
  assumes "and_then (timeit_timeit E stmt setup n s) f = (Inr y, s')"
  shows "f (elapsed E (calls s) stmt setup n)
           (after_timeit s stmt setup n (high_water E (calls s) stmt setup n)) = (Inr y, s')"
  using assms by (auto simp: and_then_Inr timeit_Inr elapsed_def high_water_def)

lemma truediv_step:
  assumes "and_then (truediv x d s) f = (Inr y, s')"
  shows "d \<noteq> 0 \<and> f (x / d) s = (Inr y, s')"
  using assms by (auto simp: and_then_Inr truediv_Inr)

lemma stat_step:
  assumes "and_then (path_stat_st_size E file s) f = (Inr y, s')"
  shows "\<exists>fn size. file = Some fn \<and> st_size E fn = Some size
           \<and> f size (emit (Stat fn) s) = (Inr y, s')"
  using assms by (auto simp: and_then_Inr stat_Inr)

lemma after_timeit_peak:
  "tracing s \<Longrightarrow> traced_peak (after_timeit s stmt setup n h) = max (traced_peak s) h"
  "\<not> tracing s \<Longrightarrow> traced_peak (after_timeit s stmt setup n h) = traced_peak s"
  by (simp_all add: after_timeit_def)

lemma after_timeit_fields [simp]:
  "calls (after_timeit s stmt setup n h) = Suc (calls s)"
  "tracing (after_timeit s stmt setup n h) = tracing s"
  "events (after_timeit s stmt setup n h) = events s @ [Timeit stmt setup n]"
  by (simp_all add: after_timeit_def)

lemma call_index:
  "Suc k = k + 1" "k + 1 + 1 = k + 2" "k + 2 + 1 = k + 3" "k + 3 + 1 = k + 4"
  "k + 4 + 1 = k + 5" "k + 5 + 1 = k + 6"
  by simp_all

lemma simpleion_Inr:
  assumes "read_micro_benchmark_simpleion E n w file s = (Inr r, s')"
  shows "\<exists>f size. file = Some f \<and> st_size E f = Some size \<and> n \<noteq> 0
     \<and> r = Some (real size / real BYTES_TO_MB, sample_A E s f n, sample_B E s f n, sample_C E s f n)
     \<and> calls s' = calls s + 6 \<and> tracing s' = tracing s
     \<and> events s' = events s @ benchmark_events f w n
     \<and> traced_peak s' = (if tracing s then foldl max (traced_peak s) (run_high_waters E s f w n) else traced_peak s)"
proof -
  note a = assms[unfolded read_micro_benchmark_simpleion_def Let_def]
  from stat_step[OF a] show ?thesis
    apply (elim exE conjE)
    subgoal premises prems for f size
    proof -
      note w1 = timeit_step[OF prems(3)[unfolded prems(1) option.sel]]
      note w2 = timeit_step[OF w1]
      note w3 = timeit_step[OF w2]
      note t1 = truediv_step[OF timeit_step[OF w3]]
      note t2 = truediv_step[OF timeit_step[OF t1[THEN conjunct2]]]
      note t3 = truediv_step[OF timeit_step[OF t2[THEN conjunct2]]]
      note fin = t3[THEN conjunct2, unfolded prod.inject sum.inject after_timeit_fields emit_simps call_index]
      note r = fin[THEN conjunct1, symmetric]
      note s' = fin[THEN conjunct2, symmetric]
      from t1 have n: "n \<noteq> 0" by simp
      have c: "calls s' = calls s + 6" and t: "tracing s' = tracing s"
        and e: "events s' = events s @ benchmark_events f w n"
        unfolding s' by (simp_all add: benchmark_events_def)
      have p: "traced_peak s' = (if tracing s then foldl max (traced_peak s) (run_high_waters E s f w n) else traced_peak s)"
      proof (cases "tracing s")
        case True
        then show ?thesis
          unfolding s'
          by (simp only: after_timeit_peak after_timeit_fields emit_simps run_high_waters_def
              foldl.simps if_True add_0_right One_nat_def[symmetric])
      next
        case False
        then show ?thesis
          unfolding s' by (simp add: after_timeit_peak)
      qed
      show ?thesis
        using prems(1,2) n c t e p
        by (simp add: r sample_A_def sample_B_def sample_C_def)
    qed
    done
qed

lemma and_then_InrE:
  assumes "and_then m f = (Inr y, s')"
  obtains x s1 where "m = (Inr x, s1)" "f x s1 = (Inr y, s')"
  using assms by (auto simp: and_then_Inr)

lemma and_then_simps [simp]:
  "and_then (Inr x, s) f = f x s"
  "and_then (Inl e, s) f = (Inl e, s)"
  by (simp_all add: and_then_def)

lemma calculate_metrics_Inr:
  "calculate_metrics fs a b c mem s = (Inr u, s') \<longleftrightarrow>
     (0 < a - b \<or> 0 < b - c \<longrightarrow> a \<noteq> 0)
     \<and> s' = emit (Print (Table [header, overhead_row fs a b c mem])) s"
  by (cases "0 < a - b"; cases "0 < b - c")
    (auto simp: calculate_metrics_def Let_def truediv_def read_generate_report_def print_def
      overhead_row_def)

lemma calculate_metrics_Inl:
  "isl (fst (calculate_metrics fs a b c mem s)) \<Longrightarrow> snd (calculate_metrics fs a b c mem s) = s"
  by (cases "0 < a - b"; cases "0 < b - c")
    (auto simp: calculate_metrics_def Let_def truediv_def read_generate_report_def print_def
      split: if_splits)

lemma profiling_generic:
  assumes "read_micro_benchmark_and_profiling (Some bench) n w file s = (Inr u, s')"
  shows "\<exists>fs a b c s1. \<not> falsy file
     \<and> bench n w file (snd (tracemalloc_start s)) = (Inr (Some (fs, a, b, c)), s1)
     \<and> (0 < a - b \<or> 0 < b - c \<longrightarrow> a \<noteq> 0)
     \<and> calls s' = calls s1 \<and> tracing s' = False
     \<and> events s' = events s1 @
          [GetTracedMemory, TracemallocStop,
           Print (Table [header,
             overhead_row fs a b c
               (real (if tracing s1 then traced_peak s1 else 0) / real BYTES_TO_MB)])]"
proof -
  from assms have nf: "\<not> falsy file"
    by (simp add: read_micro_benchmark_and_profiling_def split: if_splits)
  obtain r s1 where b: "bench n w file (snd (tracemalloc_start s)) = (r, s1)"
    by (cases "bench n w file (snd (tracemalloc_start s))")
  from assms nf b obtain fs a b c where r: "r = Inr (Some (fs, a, b, c))"
    by (cases r; cases "projr r")
      (auto simp: read_micro_benchmark_and_profiling_def tracemalloc_start_def)
  from assms nf b show ?thesis
    unfolding r
    by (auto simp: read_micro_benchmark_and_profiling_def tracemalloc_start_def
        tracemalloc_get_traced_memory_peak_def tracemalloc_stop_def calculate_metrics_Inr Let_def)
qed

lemma profiling_stub:
  assumes "bench n w file (snd (tracemalloc_start s)) = (Inr None, s1)"
  shows "read_micro_benchmark_and_profiling (Some bench) n w file s =
           (if falsy file then (Inl (Exception ''Invalid file: file can not be none.''), s)
            else (Inl TypeError, s1))"
  using assms by (simp add: read_micro_benchmark_and_profiling_def tracemalloc_start_def)

lemma cli_read_Inr:
  assumes "ion_python_benchmark_cli E args s = (Inr u, s')" and "arg_read args"
  shows "\<exists>f n w. arg_input_file args = Some f \<and> f \<noteq> []
     \<and> py_int E (arg_iterations args) = Some n \<and> py_int E (arg_warmups args) = Some w
     \<and> (falsy (arg_api args) \<or> arg_api args = Some (API_value SIMPLE_ION))
     \<and> read_micro_benchmark_and_profiling (Some (read_micro_benchmark_simpleion E)) n w
           (Some f) s = (Inr u, s')"
proof -
  from assms(1) have nf: "\<not> falsy (arg_input_file args)"
    by (simp add: ion_python_benchmark_cli_def split: if_splits)
  then obtain f where f: "arg_input_file args = Some f" "f \<noteq> []"
    by (auto simp: falsy_def)
  from assms(1) nf obtain n where n: "py_int E (arg_iterations args) = Some n"
    by (cases "py_int E (arg_iterations args)")
      (auto simp: ion_python_benchmark_cli_def int_of_str_def Let_def)
  from assms(1) nf n obtain w where w: "py_int E (arg_warmups args) = Some w"
    by (cases "py_int E (arg_warmups args)")
      (auto simp: ion_python_benchmark_cli_def int_of_str_def Let_def)
  have stub: "read_micro_benchmark_and_profiling (Some bench) n w (Some f) s \<noteq> (Inr u, s')"
    if "bench = read_micro_benchmark_iterator \<or> bench = read_micro_benchmark_non_blocking" for bench
    using that f(2)
    by (auto simp: profiling_stub falsy_def read_micro_benchmark_iterator_def
        read_micro_benchmark_non_blocking_def)
  from assms nf n w f stub show ?thesis
    by (auto simp: ion_python_benchmark_cli_def int_of_str_def Let_def split: if_splits)
qed

lemma read_run:
  assumes "ion_python_benchmark_cli E args s = (Inr u, s')" and "arg_read args"
  shows "\<exists>f n w size. arg_input_file args = Some f \<and> f \<noteq> []
     \<and> py_int E (arg_iterations args) = Some n \<and> n \<noteq> 0
     \<and> py_int E (arg_warmups args) = Some w \<and> st_size E f = Some size
     \<and> (falsy (arg_api args) \<or> arg_api args = Some (API_value SIMPLE_ION))
     \<and> (0 < sample_A E s f n - sample_B E s f n \<or> 0 < sample_B E s f n - sample_C E s f n
           \<longrightarrow> sample_A E s f n \<noteq> 0)
     \<and> calls s' = calls s + 6 \<and> tracing s' = False
     \<and> events s' = events s @ [TracemallocStart] @ benchmark_events f w n @
          [GetTracedMemory, TracemallocStop,
           Print (Table [header,
             overhead_row (real size / real BYTES_TO_MB) (sample_A E s f n) (sample_B E s f n)
               (sample_C E s f n)
               (real (foldl max (if tracing s then traced_peak s else 0)
                  (run_high_waters E s f w n)) / real BYTES_TO_MB)])]"
proof -
  from cli_read_Inr[OF assms] obtain f n w where
    f: "arg_input_file args = Some f" "f \<noteq> []"
    and n: "py_int E (arg_iterations args) = Some n" and w: "py_int E (arg_warmups args) = Some w"
    and api: "falsy (arg_api args) \<or> arg_api args = Some (API_value SIMPLE_ION)"
    and p: "read_micro_benchmark_and_profiling (Some (read_micro_benchmark_simpleion E)) n w
           (Some f) s = (Inr u, s')"
    by blast
  define s0 where "s0 = snd (tracemalloc_start s)"
  have s0: "calls s0 = calls s" "tracing s0" "events s0 = events s @ [TracemallocStart]"
    "traced_peak s0 = (if tracing s then traced_peak s else 0)"
    by (simp_all add: s0_def tracemalloc_start_def)
  from profiling_generic[OF p, folded s0_def] obtain fs a b c s1 where
    b: "read_micro_benchmark_simpleion E n w (Some f) s0 = (Inr (Some (fs, a, b, c)), s1)"
    and z: "0 < a - b \<or> 0 < b - c \<longrightarrow> a \<noteq> 0"
    and c': "calls s' = calls s1" and t': "tracing s' = False"
    and e': "events s' = events s1 @
          [GetTracedMemory, TracemallocStop,
           Print (Table [header,
             overhead_row fs a b c
               (real (if tracing s1 then traced_peak s1 else 0) / real BYTES_TO_MB)])]"
    by blast
  from simpleion_Inr[OF b] obtain size where size: "st_size E f = Some size" and n0: "n \<noteq> 0"
    and r: "fs = real size / real BYTES_TO_MB" "a = sample_A E s0 f n" "b = sample_B E s0 f n"
      "c = sample_C E s0 f n"
    and c1: "calls s1 = calls s0 + 6" and t1: "tracing s1 = tracing s0"
    and e1: "events s1 = events s0 @ benchmark_events f w n"
    and p1: "traced_peak s1 = (if tracing s0 then foldl max (traced_peak s0) (run_high_waters E s0 f w n) else traced_peak s0)"
    by auto
  have same: "sample_A E s0 f n = sample_A E s f n" "sample_B E s0 f n = sample_B E s f n"
    "sample_C E s0 f n = sample_C E s f n" "run_high_waters E s0 f w n = run_high_waters E s f w n"
    by (simp_all add: sample_A_def sample_B_def sample_C_def run_high_waters_def s0)
  show ?thesis
    apply (rule exI[of _ f], rule exI[of _ n], rule exI[of _ w], rule exI[of _ size])
    using f n w size n0 api z s0(2) unfolding r same c' c1 t' e' e1 t1 p1 s0
    by simp
qed

lemma report_row_events:
  "events s = evs @ [Print (Table [h, r])] \<Longrightarrow> report_row s = r"
  by (simp add: report_row_def stdout_def)

subsection \<open>Failing runs print nothing\<close>

lemma stdout_emit:
  "stdout (emit ev s) = stdout s @ (case ev of Print out \<Rightarrow> [out] | _ \<Rightarrow> [])"
  by (simp add: stdout_def emit_def)

lemma stdout_update [simp]:
  "stdout (s\<lparr>calls := c\<rparr>) = stdout s"
  "stdout (s\<lparr>tracing := t\<rparr>) = stdout s"
  "stdout (s\<lparr>traced_peak := p\<rparr>) = stdout s"
  by (simp_all add: stdout_def)

lemma and_then_quiet:
  assumes "stdout (snd m) = out"
    and "\<And>x s1. stdout s1 = out \<Longrightarrow> stdout (snd (f x s1)) = out"
  shows "stdout (snd (and_then m f)) = out"
  using assms by (cases m; cases "fst m") (auto simp: and_then_def)

lemma and_then_fail_quiet:
  assumes "stdout (snd m) = out"
    and "\<And>x s1. stdout s1 = out \<Longrightarrow> isl (fst (f x s1)) \<Longrightarrow> stdout (snd (f x s1)) = out"
    and "isl (fst (and_then m f))"
  shows "stdout (snd (and_then m f)) = out"
  using assms by (cases m; cases "fst m") (auto simp: and_then_def)

lemma prim_quiet:
  "stdout s = out \<Longrightarrow> stdout (snd (path_stat_st_size E file s)) = out"
  "stdout s = out \<Longrightarrow> stdout (snd (timeit_timeit E stmt setup k s)) = out"
  "stdout s = out \<Longrightarrow> stdout (snd (truediv x y s)) = out"
  "stdout s = out \<Longrightarrow> stdout (snd (tracemalloc_start s)) = out"
  "stdout s = out \<Longrightarrow> stdout (snd (tracemalloc_get_traced_memory_peak s)) = out"
  "stdout s = out \<Longrightarrow> stdout (snd (tracemalloc_stop s)) = out"
  "stdout s = out \<Longrightarrow> stdout (snd (int_of_str E v s)) = out"
  by (auto simp: path_stat_st_size_def timeit_timeit_def truediv_def tracemalloc_start_def
      tracemalloc_get_traced_memory_peak_def tracemalloc_stop_def int_of_str_def stdout_emit
      Let_def split: option.splits)

lemma simpleion_quiet:
  "stdout s = out \<Longrightarrow> stdout (snd (read_micro_benchmark_simpleion E n w file s)) = out"
  unfolding read_micro_benchmark_simpleion_def Let_def
  by (intro and_then_quiet prim_quiet) simp_all

lemma stub_quiet:
  "stdout s = out \<Longrightarrow> stdout (snd (read_micro_benchmark_iterator n w file s)) = out"
  "stdout s = out \<Longrightarrow> stdout (snd (read_micro_benchmark_non_blocking n w file s)) = out"
  by (simp_all add: read_micro_benchmark_iterator_def read_micro_benchmark_non_blocking_def)

lemma profiling_fail_quiet:
  assumes "\<And>s out. stdout s = out \<Longrightarrow> stdout (snd (bench n w file s)) = out"
    and "isl (fst (read_micro_benchmark_and_profiling (Some bench) n w file s))"
  shows "stdout (snd (read_micro_benchmark_and_profiling (Some bench) n w file s)) = stdout s"
proof (cases "falsy file")
  case True
  then show ?thesis by (simp add: read_micro_benchmark_and_profiling_def)
next
  case False
  obtain r s1 where b: "bench n w file (snd (tracemalloc_start s)) = (r, s1)"
    by (cases "bench n w file (snd (tracemalloc_start s))")
  have q: "stdout s1 = stdout s"
    using assms(1)[of "snd (tracemalloc_start s)" "stdout s"] prim_quiet(4)[of s "stdout s"] b
    by simp
  show ?thesis
  proof (cases r)
    case (Inl e)
    with False b q show ?thesis
      by (simp add: read_micro_benchmark_and_profiling_def tracemalloc_start_def)
  next
    case (Inr v)
    show ?thesis
    proof (cases v)
      case None
      with False b q Inr show ?thesis
        by (simp add: read_micro_benchmark_and_profiling_def tracemalloc_start_def)
    next
      case (Some t)
      obtain fs a b' c where t: "t = (fs, a, b', c)" by (cases t)
      define s2 where "s2 = emit TracemallocStop
        (emit GetTracedMemory s1\<lparr>tracing := False, traced_peak := 0\<rparr>)"
      define mem where "mem = real (if tracing s1 then traced_peak s1 else 0) / real BYTES_TO_MB"
      have eq: "read_micro_benchmark_and_profiling (Some bench) n w file s
          = calculate_metrics fs a b' c mem s2"
        using False b Inr Some t
        by (simp add: read_micro_benchmark_and_profiling_def tracemalloc_start_def
            tracemalloc_get_traced_memory_peak_def tracemalloc_stop_def Let_def s2_def mem_def)
      have "stdout s2 = stdout s" using q by (simp add: s2_def stdout_emit)
      with calculate_metrics_Inl[of fs a b' c mem s2] assms(2) show ?thesis
        unfolding eq by simp
    qed
  qed
qed

lemma cli_parsed:
  assumes "\<not> falsy (arg_input_file args)" and "py_int E (arg_iterations args) = Some n"
    and "py_int E (arg_warmups args) = Some w"
  shows "ion_python_benchmark_cli E args s =
     (if arg_read args then
        (if falsy (arg_api args) \<or> arg_api args = Some (API_value SIMPLE_ION)
           then read_micro_benchmark_and_profiling (Some (read_micro_benchmark_simpleion E))
                  n w (arg_input_file args) s
         else if arg_api args = Some (API_value ITERATOR)
           then read_micro_benchmark_and_profiling (Some read_micro_benchmark_iterator)
                  n w (arg_input_file args) s
         else if arg_api args = Some (API_value NON_BLOCKING)
           then read_micro_benchmark_and_profiling (Some read_micro_benchmark_non_blocking)
                  n w (arg_input_file args) s
         else (Inl (Exception (''Invalid API option '' @ the (arg_api args) @ ''.'')), s))
      else if arg_write args then print (Line ''Write feature is not supported yet'') s
      else if arg_generate args then print (Line ''Generate feature is not supported yet'') s
      else (Inr (), s))"
  using assms by (simp add: ion_python_benchmark_cli_def int_of_str_def Let_def)

lemma cli_unparsed:
  "falsy (arg_input_file args) \<Longrightarrow>
     ion_python_benchmark_cli E args s = (Inl (Exception ''Invalid input file''), s)"
  "\<not> falsy (arg_input_file args) \<Longrightarrow> py_int E (arg_iterations args) = None \<Longrightarrow>
     ion_python_benchmark_cli E args s = (Inl ValueError, s)"
  "\<not> falsy (arg_input_file args) \<Longrightarrow> py_int E (arg_iterations args) = Some n \<Longrightarrow>
     py_int E (arg_warmups args) = None \<Longrightarrow>
     ion_python_benchmark_cli E args s = (Inl ValueError, s)"
  by (simp_all add: ion_python_benchmark_cli_def int_of_str_def Let_def)

lemma cli_fail_quiet:
  assumes "isl (run_result E args s)"
  shows "stdout (run_state E args s) = stdout s"
proof -
  have b1: "stdout (snd (read_micro_benchmark_and_profiling
        (Some (read_micro_benchmark_simpleion E)) n w fl s)) = stdout s"
    if "isl (fst (read_micro_benchmark_and_profiling
        (Some (read_micro_benchmark_simpleion E)) n w fl s))" for n w fl
    by (rule profiling_fail_quiet[OF simpleion_quiet that])
  have b2: "stdout (snd (read_micro_benchmark_and_profiling
        (Some read_micro_benchmark_iterator) n w fl s)) = stdout s"
    if "isl (fst (read_micro_benchmark_and_profiling
        (Some read_micro_benchmark_iterator) n w fl s))" for n w fl
    by (rule profiling_fail_quiet[OF stub_quiet(1) that])
  have b3: "stdout (snd (read_micro_benchmark_and_profiling
        (Some read_micro_benchmark_non_blocking) n w fl s)) = stdout s"
    if "isl (fst (read_micro_benchmark_and_profiling
        (Some read_micro_benchmark_non_blocking) n w fl s))" for n w fl
    by (rule profiling_fail_quiet[OF stub_quiet(2) that])
  show ?thesis
  proof (cases "falsy (arg_input_file args)")
    case True
    then show ?thesis by (simp add: run_state_def cli_unparsed)
  next
    case nf: False
    show ?thesis
    proof (cases "py_int E (arg_iterations args)")
      case None
      with nf show ?thesis by (simp add: run_state_def cli_unparsed)
    next
      case n: (Some n)
      show ?thesis
      proof (cases "py_int E (arg_warmups args)")
        case None
        with nf n show ?thesis by (simp add: run_state_def cli_unparsed)
      next
        case w: (Some w)
        from assms show ?thesis
          unfolding run_result_def run_state_def cli_parsed[OF nf n w]
          by (auto simp: print_def split: if_splits intro: b1 b2 b3)
      qed
    qed
  qed
qed

subsection \<open>The report of a successful run\<close>


lemma run_pair:
  "run_result E args s = Inr u \<Longrightarrow>
     ion_python_benchmark_cli E args s = (Inr u, run_state E args s)"
  by (simp add: run_result_def run_state_def prod_eq_iff)

lemma read_report:
  assumes "run_result E args s = Inr ()" and "arg_read args"
    and "arg_input_file args = Some f" and "py_int E (arg_iterations args) = Some n"
  shows "\<exists>w size. py_int E (arg_warmups args) = Some w \<and> st_size E f = Some size \<and> n \<noteq> 0
     \<and> f \<noteq> []
     \<and> (0 < sample_A E s f n - sample_B E s f n \<or> 0 < sample_B E s f n - sample_C E s f n
           \<longrightarrow> sample_A E s f n \<noteq> 0)
     \<and> events (run_state E args s) = events s @ [TracemallocStart] @ benchmark_events f w n @
          [GetTracedMemory, TracemallocStop, Print (Table [header, report_row (run_state E args s)])]
     \<and> stdout (run_state E args s) = stdout s @ [Table [header, report_row (run_state E args s)]]
     \<and> report_row (run_state E args s) =
           overhead_row (real size / real BYTES_TO_MB) (sample_A E s f n) (sample_B E s f n)
             (sample_C E s f n)
             (real (foldl max (if tracing s then traced_peak s else 0)
                (run_high_waters E s f w n)) / real BYTES_TO_MB)"
proof -
  from read_run[OF run_pair[OF assms(1)] assms(2)] assms(3,4)
  obtain w size where w: "py_int E (arg_warmups args) = Some w"
    and size: "st_size E f = Some size" and n: "n \<noteq> 0" and f: "f \<noteq> []"
    and z: "0 < sample_A E s f n - sample_B E s f n \<or> 0 < sample_B E s f n - sample_C E s f n
           \<longrightarrow> sample_A E s f n \<noteq> 0"
    and e: "events (run_state E args s) = events s @ [TracemallocStart] @ benchmark_events f w n @
          [GetTracedMemory, TracemallocStop,
           Print (Table [header,
             overhead_row (real size / real BYTES_TO_MB) (sample_A E s f n) (sample_B E s f n)
               (sample_C E s f n)
               (real (foldl max (if tracing s then traced_peak s else 0)
                  (run_high_waters E s f w n)) / real BYTES_TO_MB)])]"
    by auto
  have row: "report_row (run_state E args s) =
           overhead_row (real size / real BYTES_TO_MB) (sample_A E s f n) (sample_B E s f n)
             (sample_C E s f n)
             (real (foldl max (if tracing s then traced_peak s else 0)
                (run_high_waters E s f w n)) / real BYTES_TO_MB)"
    by (rule report_row_events) (simp add: e)
  have out: "stdout (run_state E args s) = stdout s @ [Table [header, report_row (run_state E args s)]]"
    unfolding row by (simp add: stdout_def e benchmark_events_def)
  show ?thesis
    using w size n f z e row out by simp
qed

lemmas run_defs =
  run_result_def run_state_def ion_python_benchmark_cli_def read_micro_benchmark_and_profiling_def
  calculate_metrics_def read_micro_benchmark_simpleion_def read_micro_benchmark_iterator_def
  read_micro_benchmark_non_blocking_def and_then_def timeit_timeit_def truediv_def
  path_stat_st_size_def tracemalloc_start_def tracemalloc_stop_def
  tracemalloc_get_traced_memory_peak_def read_generate_report_def print_def emit_def
  int_of_str_def falsy_def oracle_env_def default_args_def init_state_def int_of_decimal_def
  report_row_def stdout_def sample_A_def sample_B_def sample_C_def elapsed_def high_water_def
  BYTES_TO_MB_def Let_def

lemma digit_char_digit: "digit_char d \<in> set ''0123456789''"
  unfolding digit_char_def by (rule nth_mem) simp

lemma digit_char_not_minus: "digit_char d \<noteq> CHR ''-''"
  using digit_char_digit[of d] by auto

lemma format_2e_positive: "0 < x \<Longrightarrow> hd (format_2e x) \<noteq> CHR ''-''"
  by (simp add: format_2e_def Let_def digit_char_not_minus split: prod.splits)

lemma format_2e_zero: "format_2e 0 = ''0.00e+00''"
  by (simp add: format_2e_def)

lemma decimal_zero: "decimal 0 = ''0''"
  by (simp add: decimal.simps digit_char_def)

lemma timeit_setups_append:
  "timeit_setups (xs @ ys) = timeit_setups xs @ timeit_setups ys"
  by (induction xs rule: timeit_setups.induct) simp_all

lemma file_size_cell:
  assumes ok: "run_result E args s = Inr ()" and "arg_read args"
    and "arg_input_file args = Some f"
  shows "\<exists>size. st_size E f = Some size
      \<and> report_row (run_state E args s) ! 0 = Sci (real size / 1048576)"
proof -
  from read_run[OF run_pair[OF ok] assms(2)] assms(3)
  obtain n where n: "py_int E (arg_iterations args) = Some n" by auto
  from read_report[OF ok assms(2,3) n] obtain size mem where size: "st_size E f = Some size"
    and row: "report_row (run_state E args s) =
           overhead_row (real size / real BYTES_TO_MB) (sample_A E s f n) (sample_B E s f n)
             (sample_C E s f n) mem"
    by blast
  have "report_row (run_state E args s) ! 0 = Sci (real size / 1048576)"
    unfolding row by (simp add: overhead_row_def BYTES_TO_MB_def)
  with size show ?thesis by blast
qed

lemma render_ten_megabytes: "render (Sci (real (10485760::nat) / 1048576)) = ''1.00e+01''"
  by (simp add: format_2e_def round_half_even_def digit_char_def pad2_def
      scale_down.simps decimal.simps)

subsection \<open>Runs that are rejected or fail\<close>

lemma zero_iterations_division:
  assumes "arg_read args" and "arg_input_file args = Some f" and "f \<noteq> []"
    and "py_int E (arg_iterations args) = Some 0" and "py_int E (arg_warmups args) = Some w"
    and "falsy (arg_api args) \<or> arg_api args = Some (API_value SIMPLE_ION)"
    and "st_size E f = Some sz"
    and "timeit E (calls s) (generate_simpleion_load_test_code f False False)
           (generate_simpleion_load_setup True) w = Some a1"
    and "timeit E (calls s + 1) (generate_simpleion_load_test_code f False False)
           (generate_simpleion_load_setup False) w = Some a2"
    and "timeit E (calls s + 2) (generate_simpleion_load_test_code f False True)
           (generate_simpleion_load_setup False) w = Some a3"
    and "timeit E (calls s + 3) (generate_simpleion_load_test_code f False False)
           (generate_simpleion_load_setup True) 0 = Some a4"
  shows "run_result E args s = Inl ZeroDivisionError
     \<and> tracing (run_state E args s)
     \<and> events (run_state E args s) =
           events s @
           [TracemallocStart, Stat f,
            Timeit (generate_simpleion_load_test_code f False False)
              (generate_simpleion_load_setup True) w,
            Timeit (generate_simpleion_load_test_code f False False)
              (generate_simpleion_load_setup False) w,
            Timeit (generate_simpleion_load_test_code f False True)
              (generate_simpleion_load_setup False) w,
            Timeit (generate_simpleion_load_test_code f False False)
              (generate_simpleion_load_setup True) 0]"
proof -
  have nf: "\<not> falsy (arg_input_file args)" using assms(2,3) by (simp add: falsy_def)
  obtain t1 h1 t2 h2 t3 h3 t4 h4 where a: "a1 = (t1, h1)" "a2 = (t2, h2)" "a3 = (t3, h3)"
    "a4 = (t4, h4)"
    by (cases a1; cases a2; cases a3; cases a4) blast
  define s0 where "s0 = emit (Stat f) (snd (tracemalloc_start s))"
  have c0: "calls s0 = calls s" by (simp add: s0_def tracemalloc_start_def)
  have st: "path_stat_st_size E (Some f) (snd (tracemalloc_start s)) = (Inr sz, s0)"
    by (simp add: path_stat_st_size_def assms(7) s0_def)
  have start: "tracemalloc_start s = (Inr (), snd (tracemalloc_start s))"
    by (simp add: tracemalloc_start_def)
  define s1 where "s1 = after_timeit s0 (generate_simpleion_load_test_code f False False)
           (generate_simpleion_load_setup True) w h1"
  define s2 where "s2 = after_timeit s1 (generate_simpleion_load_test_code f False False)
           (generate_simpleion_load_setup False) w h2"
  define s3 where "s3 = after_timeit s2 (generate_simpleion_load_test_code f False True)
           (generate_simpleion_load_setup False) w h3"
  define s4 where "s4 = after_timeit s3 (generate_simpleion_load_test_code f False False)
           (generate_simpleion_load_setup True) 0 h4"
  have c: "calls s1 = calls s + 1" "calls s2 = calls s + 2" "calls s3 = calls s + 3"
    by (simp_all add: s1_def s2_def s3_def c0)
  have k1: "timeit_timeit E (generate_simpleion_load_test_code f False False)
           (generate_simpleion_load_setup True) w s0 = (Inr t1, s1)"
    using assms(8) by (simp add: timeit_Inr a c0 s1_def)
  have k2: "timeit_timeit E (generate_simpleion_load_test_code f False False)
           (generate_simpleion_load_setup False) w s1 = (Inr t2, s2)"
    using assms(9) by (simp add: timeit_Inr a c s2_def)
  have k3: "timeit_timeit E (generate_simpleion_load_test_code f False True)
           (generate_simpleion_load_setup False) w s2 = (Inr t3, s3)"
    using assms(10) by (simp add: timeit_Inr a c s3_def)
  have k4: "timeit_timeit E (generate_simpleion_load_test_code f False False)
           (generate_simpleion_load_setup True) 0 s3 = (Inr t4, s4)"
    using assms(11) by (simp add: timeit_Inr a c s4_def)
  have bench: "read_micro_benchmark_simpleion E 0 w (Some f) (snd (tracemalloc_start s))
      = (Inl ZeroDivisionError, s4)"
    unfolding read_micro_benchmark_simpleion_def Let_def st and_then_simps option.sel
      k1 k2 k3 k4
    by (simp add: truediv_def)
  have "read_micro_benchmark_and_profiling (Some (read_micro_benchmark_simpleion E)) 0 w
      (Some f) s = (Inl ZeroDivisionError, s4)"
    unfolding read_micro_benchmark_and_profiling_def
    by (subst start) (simp add: falsy_def assms(3) bench)
  then have run: "ion_python_benchmark_cli E args s = (Inl ZeroDivisionError, s4)"
    unfolding cli_parsed[OF nf assms(4,5)]
    using assms(1,2,6) by simp
  have t4: "tracing s4"
    by (simp add: s4_def s3_def s2_def s1_def s0_def tracemalloc_start_def)
  have e4: "events s4 =
           events s @
           [TracemallocStart, Stat f,
            Timeit (generate_simpleion_load_test_code f False False)
              (generate_simpleion_load_setup True) w,
            Timeit (generate_simpleion_load_test_code f False False)
              (generate_simpleion_load_setup False) w,
            Timeit (generate_simpleion_load_test_code f False True)
              (generate_simpleion_load_setup False) w,
            Timeit (generate_simpleion_load_test_code f False False)
              (generate_simpleion_load_setup True) 0]"
    by (simp add: s4_def s3_def s2_def s1_def s0_def tracemalloc_start_def)
  from t4 e4 show ?thesis
    by (simp add: run_result_def run_state_def run)
qed

lemma zero_iterations_fail:
  assumes "arg_read args" and "py_int E (arg_iterations args) = Some 0"
  shows "isl (run_result E args s)"
proof (cases "run_result E args s")
  case (Inl e)
  then show ?thesis by simp
next
  case (Inr u)
  then have "run_result E args s = Inr ()" by simp
  from read_run[OF run_pair[OF this] assms(1)] assms(2) show ?thesis by auto
qed

lemma invalid_api_rejected:
  assumes "a \<noteq> []" and "a \<noteq> API_value SIMPLE_ION" and "a \<noteq> API_value ITERATOR"
    and "a \<noteq> API_value NON_BLOCKING" and "arg_read args" and "arg_api args = Some a"
  shows "\<exists>e. ion_python_benchmark_cli E args s = (Inl e, s)
          \<and> (e = Exception ''Invalid input file'' \<or> e = ValueError
              \<or> e = Exception (''Invalid API option '' @ a @ ''.''))
          \<and> (\<not> falsy (arg_input_file args) \<and> py_int E (arg_iterations args) \<noteq> None
                \<and> py_int E (arg_warmups args) \<noteq> None
              \<longrightarrow> e = Exception (''Invalid API option '' @ a @ ''.''))"
proof (cases "falsy (arg_input_file args)")
  case True
  then show ?thesis by (simp add: cli_unparsed)
next
  case nf: False
  show ?thesis
  proof (cases "py_int E (arg_iterations args)")
    case None
    with nf show ?thesis by (simp add: cli_unparsed)
  next
    case n: (Some n)
    show ?thesis
    proof (cases "py_int E (arg_warmups args)")
      case None
      with nf n show ?thesis by (simp add: cli_unparsed)
    next
      case w: (Some w)
      from assms nf n w show ?thesis
        by (simp add: cli_parsed[OF nf n w] falsy_def)
    qed
  qed
qed

lemma foldl_max_Max:
  fixes xs :: "nat list"
  shows "foldl max a xs = Max (set (a # xs))"
proof (induction xs arbitrary: a)
  case Nil
  show ?case by simp
next
  case (Cons x xs)
  have "foldl max a (x # xs) = Max (set (max a x # xs))" by (simp add: Cons.IH)
  also have "\<dots> = Max (insert a (insert x (set xs)))"
    by (cases "xs = []") (simp_all add: max.assoc)
  finally show ?case by simp
qed

section \<open>The claims\<close>

text \<open>
  C1. For every successful read benchmark run, the derived overheads follow the formulas
  of the spec over the three mean timing samples: the reported garbage-collection time is
  \<open>max 0 (sample_A - sample_B)\<close>, the reported conversion time is
  \<open>max 0 (sample_B - sample_C)\<close>, and each percentage is its overhead divided by
  \<open>sample_A\<close>. The run prints exactly one table, whose data row these cells belong to.
\<close>

theorem overheads_follow_formulas:
  assumes "run_result E args s = Inr ()" and "arg_read args"
    and "arg_input_file args = Some f" and "py_int E (arg_iterations args) = Some n"
  shows "stdout (run_state E args s) = stdout s @ [Table [header, report_row (run_state E args s)]]
     \<and> report_row (run_state E args s) ! 1 = Sci (sample_A E s f n)
     \<and> report_row (run_state E args s) ! 2 = Sci (sample_B E s f n)
     \<and> reported_seconds (report_row (run_state E args s) ! 3)
           = Some (max 0 (sample_A E s f n - sample_B E s f n))
     \<and> reported_ratio (report_row (run_state E args s) ! 4)
           = Some (max 0 (sample_A E s f n - sample_B E s f n) / sample_A E s f n)
     \<and> reported_seconds (report_row (run_state E args s) ! 5)
           = Some (max 0 (sample_B E s f n - sample_C E s f n))
     \<and> reported_ratio (report_row (run_state E args s) ! 6)
           = Some (max 0 (sample_B E s f n - sample_C E s f n) / sample_A E s f n)"
proof -
  from read_report[OF assms] obtain fs mem where
    out: "stdout (run_state E args s) = stdout s @ [Table [header, report_row (run_state E args s)]]"
    and row: "report_row (run_state E args s) =
      overhead_row fs (sample_A E s f n) (sample_B E s f n) (sample_C E s f n) mem"
    by blast
  show ?thesis
    using out unfolding row by (simp add: overhead_row_def max_def)
qed

theorem overheads_follow_formulas_witness:
  "run_result demo_env demo_args init_state = Inr ()
   \<and> arg_read demo_args
   \<and> arg_input_file demo_args = Some ''data.ion''
   \<and> py_int demo_env (arg_iterations demo_args) = Some 10
   \<and> reported_seconds (report_row (run_state demo_env demo_args init_state) ! 3) = Some (1 / 10)
   \<and> reported_ratio (report_row (run_state demo_env demo_args init_state) ! 4) = Some (1 / 5)
   \<and> reported_seconds (report_row (run_state demo_env demo_args init_state) ! 5) = Some 0
   \<and> reported_ratio (report_row (run_state demo_env demo_args init_state) ! 6) = Some 0"
proof -
  have h1: "run_result demo_env demo_args init_state = Inr ()"
    by (simp add: run_defs demo_env_def demo_args_def)
  have h2: "arg_read demo_args" by (simp add: demo_args_def default_args_def)
  have h3: "arg_input_file demo_args = Some ''data.ion''"
    by (simp add: demo_args_def default_args_def)
  have h4: "py_int demo_env (arg_iterations demo_args) = Some 10"
    by (simp add: demo_args_def default_args_def demo_env_def oracle_env_def int_of_decimal_def)
  have A: "sample_A demo_env init_state ''data.ion'' 10 = 1 / 2"
    and B: "sample_B demo_env init_state ''data.ion'' 10 = 2 / 5"
    and C: "sample_C demo_env init_state ''data.ion'' 10 = 9 / 20"
    by (simp_all add: sample_A_def sample_B_def sample_C_def elapsed_def demo_env_def
        oracle_env_def init_state_def)
  from overheads_follow_formulas[OF h1 h2 h3 h4] h1 h2 h3 h4 show ?thesis
    unfolding A B C by simp
qed

text \<open>
  C2. In every successful read benchmark run, an overhead that computes as non-positive is
  shown as the int literal \<open>0\<close> (displayed \<^verbatim>\<open>0\<close>, not the formatted \<^verbatim>\<open>0.00e+00\<close>) and
  its percentage as the literal string \<^verbatim>\<open>0%\<close>. So the two overhead times of the report
  are never negative: their values are at least 0 and their text does not start with a
  minus sign.
\<close>

theorem nonpositive_overheads_shown_as_zero:
  assumes "run_result E args s = Inr ()" and "arg_read args"
    and "arg_input_file args = Some f" and "py_int E (arg_iterations args) = Some n"
  shows "(sample_A E s f n - sample_B E s f n \<le> 0 \<longrightarrow>
            report_row (run_state E args s) ! 3 = IntLit 0
          \<and> report_row (run_state E args s) ! 4 = StrLit ''0%'')
     \<and> (sample_B E s f n - sample_C E s f n \<le> 0 \<longrightarrow>
            report_row (run_state E args s) ! 5 = IntLit 0
          \<and> report_row (run_state E args s) ! 6 = StrLit ''0%'')
     \<and> render (IntLit 0) = ''0'' \<and> render (Sci 0) = ''0.00e+00''
     \<and> (case reported_seconds (report_row (run_state E args s) ! 3) of
           Some x \<Rightarrow> 0 \<le> x | None \<Rightarrow> False)
     \<and> (case reported_seconds (report_row (run_state E args s) ! 5) of
           Some x \<Rightarrow> 0 \<le> x | None \<Rightarrow> False)
     \<and> hd (render (report_row (run_state E args s) ! 3)) \<noteq> CHR ''-''
     \<and> hd (render (report_row (run_state E args s) ! 5)) \<noteq> CHR ''-''"
proof -
  from read_report[OF assms] obtain fs mem where
    row: "report_row (run_state E args s) =
      overhead_row fs (sample_A E s f n) (sample_B E s f n) (sample_C E s f n) mem"
    by blast
  show ?thesis
    unfolding row
    by (simp add: overhead_row_def format_2e_zero decimal_zero format_2e_positive
        digit_char_def)
qed

theorem nonpositive_overheads_shown_as_zero_witness:
  "run_result noise_env demo_args init_state = Inr ()
   \<and> arg_read demo_args
   \<and> arg_input_file demo_args = Some ''data.ion''
   \<and> py_int noise_env (arg_iterations demo_args) = Some 10
   \<and> sample_A noise_env init_state ''data.ion'' 10 - sample_B noise_env init_state ''data.ion'' 10 \<le> 0
   \<and> sample_B noise_env init_state ''data.ion'' 10 - sample_C noise_env init_state ''data.ion'' 10 \<le> 0
   \<and> report_row (run_state noise_env demo_args init_state) ! 3 = IntLit 0
   \<and> report_row (run_state noise_env demo_args init_state) ! 4 = StrLit ''0%''
   \<and> report_row (run_state noise_env demo_args init_state) ! 5 = IntLit 0
   \<and> report_row (run_state noise_env demo_args init_state) ! 6 = StrLit ''0%''"
proof -
  have h1: "run_result noise_env demo_args init_state = Inr ()"
    by (simp add: run_defs noise_env_def demo_args_def)
  have h2: "arg_read demo_args" by (simp add: demo_args_def default_args_def)
  have h3: "arg_input_file demo_args = Some ''data.ion''"
    by (simp add: demo_args_def default_args_def)
  have h4: "py_int noise_env (arg_iterations demo_args) = Some 10"
    by (simp add: demo_args_def default_args_def noise_env_def oracle_env_def int_of_decimal_def)
  have A: "sample_A noise_env init_state ''data.ion'' 10 = 2 / 5"
    and B: "sample_B noise_env init_state ''data.ion'' 10 = 1 / 2"
    and C: "sample_C noise_env init_state ''data.ion'' 10 = 1 / 2"
    by (simp_all add: sample_A_def sample_B_def sample_C_def elapsed_def noise_env_def
        oracle_env_def init_state_def)
  from nonpositive_overheads_shown_as_zero[OF h1 h2 h3 h4] h1 h2 h3 h4 show ?thesis
    unfolding A B C by simp
qed

text \<open>
  C7. In every successful read benchmark run the file size cell is the formatted quotient
  of the byte length of the input file by 1,048,576, whatever the timer answers: two
  worlds that agree on the size of the file report the same cell. A file of 10,485,760
  bytes is displayed as \<^verbatim>\<open>1.00e+01\<close>.
\<close>

theorem file_size_is_bytes_over_mebibyte:
  assumes "run_result E args s = Inr ()" and "arg_read args"
    and "arg_input_file args = Some f"
  shows "\<exists>size. st_size E f = Some size
     \<and> report_row (run_state E args s) ! 0 = Sci (real size / 1048576)
     \<and> (size = 10485760 \<longrightarrow> render (report_row (run_state E args s) ! 0) = ''1.00e+01'')
     \<and> (\<forall>E'. st_size E' f = st_size E f \<and> run_result E' args s = Inr ()
           \<longrightarrow> report_row (run_state E' args s) ! 0 = report_row (run_state E args s) ! 0)"
proof -
  from file_size_cell[OF assms] obtain size where size: "st_size E f = Some size"
    and c: "report_row (run_state E args s) ! 0 = Sci (real size / 1048576)"
    by blast
  have ten: "render (report_row (run_state E args s) ! 0) = ''1.00e+01''" if "size = 10485760"
    unfolding c that by (rule render_ten_megabytes)
  have indep: "report_row (run_state E' args s) ! 0 = report_row (run_state E args s) ! 0"
    if same: "st_size E' f = st_size E f" and ok: "run_result E' args s = Inr ()" for E'
  proof -
    from file_size_cell[OF ok assms(2,3)] obtain size' where "st_size E' f = Some size'"
      and "report_row (run_state E' args s) ! 0 = Sci (real size' / 1048576)"
      by blast
    with same size c show ?thesis by simp
  qed
  show ?thesis
    apply (rule exI[of _ size])
    using size c ten indep by blast
qed

theorem file_size_is_bytes_over_mebibyte_witness:
  "run_result demo_env demo_args init_state = Inr ()
   \<and> arg_read demo_args
   \<and> arg_input_file demo_args = Some ''data.ion''
   \<and> st_size demo_env ''data.ion'' = Some 10485760
   \<and> st_size noise_env ''data.ion'' = st_size demo_env ''data.ion''
   \<and> run_result noise_env demo_args init_state = Inr ()
   \<and> render (report_row (run_state demo_env demo_args init_state) ! 0) = ''1.00e+01''
   \<and> report_row (run_state noise_env demo_args init_state) ! 0
       = report_row (run_state demo_env demo_args init_state) ! 0"
proof -
  have h1: "run_result demo_env demo_args init_state = Inr ()"
    by (simp add: run_defs demo_env_def demo_args_def)
  have h2: "arg_read demo_args" by (simp add: demo_args_def default_args_def)
  have h3: "arg_input_file demo_args = Some ''data.ion''"
    by (simp add: demo_args_def default_args_def)
  have h4: "st_size demo_env ''data.ion'' = Some 10485760"
    and h5: "st_size noise_env ''data.ion'' = st_size demo_env ''data.ion''"
    by (simp_all add: demo_env_def noise_env_def oracle_env_def)
  have h6: "run_result noise_env demo_args init_state = Inr ()"
    by (simp add: run_defs noise_env_def demo_args_def)
  from file_size_is_bytes_over_mebibyte[OF h1 h2 h3] obtain size where
    size: "st_size demo_env ''data.ion'' = Some size"
    and ten: "size = 10485760 \<longrightarrow>
      render (report_row (run_state demo_env demo_args init_state) ! 0) = ''1.00e+01''"
    and same: "\<forall>E'. st_size E' ''data.ion'' = st_size demo_env ''data.ion''
        \<and> run_result E' demo_args init_state = Inr ()
      \<longrightarrow> report_row (run_state E' demo_args init_state) ! 0
          = report_row (run_state demo_env demo_args init_state) ! 0"
    by blast
  from size h4 have "size = 10485760" by simp
  with ten[THEN mp] have r: "render (report_row (run_state demo_env demo_args init_state) ! 0)
      = ''1.00e+01''"
    by blast
  from same h5 h6 have i: "report_row (run_state noise_env demo_args init_state) ! 0
       = report_row (run_state demo_env demo_args init_state) ! 0"
    by blast
  from h1 h2 h3 h4 h5 h6 r i show ?thesis
    by (intro conjI)
qed

text \<open>
  C10. The setup generated with \<open>gc=False\<close> is exactly the import statement: it has no
  letter \<open>g\<close>, so no \<^verbatim>\<open>gc.disable()\<close> and no other use of \<^verbatim>\<open>gc\<close>. The setup generated
  with \<open>gc=True\<close> appends \<^verbatim>\<open>; import gc; gc.enable();\<close> to it. In every successful read
  run the six \<^verbatim>\<open>timeit.timeit\<close> calls get these setups: the collector-enabling one for
  variant A, the bare import for variants B and C.
\<close>

theorem gc_disabled_setup_is_import_only:
  "generate_simpleion_load_setup False = ''import amazon.ion.simpleion as ion''
   \<and> CHR ''g'' \<notin> set (generate_simpleion_load_setup False)
   \<and> \<not> sublist ''gc.disable()'' (generate_simpleion_load_setup False)
   \<and> generate_simpleion_load_setup True
       = generate_simpleion_load_setup False @ ''; import gc; gc.enable();''
   \<and> \<not> sublist ''gc.disable()'' (generate_simpleion_load_setup True)
   \<and> (run_result E args s = Inr () \<and> arg_read args \<longrightarrow>
        timeit_setups (events (run_state E args s)) =
          timeit_setups (events s) @
          [generate_simpleion_load_setup True, generate_simpleion_load_setup False,
           generate_simpleion_load_setup False, generate_simpleion_load_setup True,
           generate_simpleion_load_setup False, generate_simpleion_load_setup False])"
proof -
  have a: "generate_simpleion_load_setup False = ''import amazon.ion.simpleion as ion''"
    and b: "generate_simpleion_load_setup True
       = generate_simpleion_load_setup False @ ''; import gc; gc.enable();''"
    by (simp_all add: generate_simpleion_load_setup_def)
  have c: "CHR ''g'' \<notin> set (generate_simpleion_load_setup False)"
    and d: "\<not> sublist ''gc.disable()'' (generate_simpleion_load_setup False)"
    and e: "\<not> sublist ''gc.disable()'' (generate_simpleion_load_setup True)"
    unfolding b a by (simp_all add: sublist_Cons_right prefix_Cons)
  have run: "timeit_setups (events (run_state E args s)) =
          timeit_setups (events s) @
          [generate_simpleion_load_setup True, generate_simpleion_load_setup False,
           generate_simpleion_load_setup False, generate_simpleion_load_setup True,
           generate_simpleion_load_setup False, generate_simpleion_load_setup False]"
    if ok: "run_result E args s = Inr ()" and rd: "arg_read args"
  proof -
    from read_run[OF run_pair[OF ok] rd]
    obtain f n w t where ev: "events (run_state E args s) =
        events s @ [TracemallocStart] @ benchmark_events f w n @
          [GetTracedMemory, TracemallocStop, Print t]"
      by blast
    show ?thesis
      unfolding ev by (simp add: timeit_setups_append benchmark_events_def)
  qed
  from a b c d e run show ?thesis by blast
qed

theorem gc_disabled_setup_is_import_only_witness:
  "run_result demo_env demo_args init_state = Inr () \<and> arg_read demo_args
   \<and> timeit_setups (events (run_state demo_env demo_args init_state)) =
        [''import amazon.ion.simpleion as ion; import gc; gc.enable();'',
         ''import amazon.ion.simpleion as ion'', ''import amazon.ion.simpleion as ion'',
         ''import amazon.ion.simpleion as ion; import gc; gc.enable();'',
         ''import amazon.ion.simpleion as ion'', ''import amazon.ion.simpleion as ion'']"
proof -
  have h1: "run_result demo_env demo_args init_state = Inr ()"
    by (simp add: run_defs demo_env_def demo_args_def)
  have h2: "arg_read demo_args" by (simp add: demo_args_def default_args_def)
  note setups = gc_disabled_setup_is_import_only[of demo_env demo_args init_state,
      THEN conjunct2, THEN conjunct2, THEN conjunct2, THEN conjunct2, THEN conjunct2,
      rule_format, OF conjI[OF h1 h2]]
  have t: "timeit_setups (events (run_state demo_env demo_args init_state)) =
        [''import amazon.ion.simpleion as ion; import gc; gc.enable();'',
         ''import amazon.ion.simpleion as ion'', ''import amazon.ion.simpleion as ion'',
         ''import amazon.ion.simpleion as ion; import gc; gc.enable();'',
         ''import amazon.ion.simpleion as ion'', ''import amazon.ion.simpleion as ion'']"
    unfolding setups by (simp add: init_state_def generate_simpleion_load_setup_def)
  from h1 h2 t show ?thesis by (intro conjI)
qed

text \<open>
  C3 says that both reported percentages lie in \<open>[0, 1]\<close> for all non-negative samples
  with \<open>sample_A > 0\<close>. The conversion percentage does not: with one iteration taking
  1 second for variant A, 3 seconds for B and 0.5 seconds for C, the run reports the
  ratio 2.5 (250 percent). Both overheads are divided by \<open>sample_A\<close>, and nothing orders
  \<open>sample_B\<close> below \<open>sample_A\<close>.
\<close>

theorem conversion_ratio_above_one_counterexample:
  "run_result skew_env once_args init_state = Inr ()
   \<and> 0 < sample_A skew_env init_state ''data.ion'' 1
   \<and> 0 \<le> sample_B skew_env init_state ''data.ion'' 1
   \<and> 0 \<le> sample_C skew_env init_state ''data.ion'' 1
   \<and> reported_ratio (report_row (run_state skew_env once_args init_state) ! 6) = Some (5 / 2)
   \<and> \<not> (5 / 2 \<le> (1::real))"
  by (simp add: run_defs skew_env_def once_args_def demo_args_def)

text \<open>
  C3, as amended. For non-negative samples with \<open>sample_A > 0\<close>, the garbage-collection
  percentage lies in \<open>[0, 1]\<close>; the conversion percentage is at least 0, and it is at
  most 1 exactly when \<open>sample_B - sample_C \<le> sample_A\<close>.
\<close>

theorem overhead_ratio_bounds:
  assumes "run_result E args s = Inr ()" and "arg_read args"
    and "arg_input_file args = Some f" and "py_int E (arg_iterations args) = Some n"
    and "0 < sample_A E s f n" and "0 \<le> sample_B E s f n" and "0 \<le> sample_C E s f n"
  shows "(\<exists>r. reported_ratio (report_row (run_state E args s) ! 4) = Some r \<and> 0 \<le> r \<and> r \<le> 1)
     \<and> (\<exists>r. reported_ratio (report_row (run_state E args s) ! 6) = Some r \<and> 0 \<le> r
            \<and> (r \<le> 1 \<longleftrightarrow> sample_B E s f n - sample_C E s f n \<le> sample_A E s f n))"
proof -
  from read_report[OF assms(1-4)] obtain fs mem where
    row: "report_row (run_state E args s) =
      overhead_row fs (sample_A E s f n) (sample_B E s f n) (sample_C E s f n) mem"
    by blast
  define a where "a = sample_A E s f n"
  define b where "b = sample_B E s f n"
  define c where "c = sample_C E s f n"
  have pos: "0 < a" "0 \<le> b" "0 \<le> c" using assms(5-7) by (simp_all add: a_def b_def c_def)
  have gc: "\<exists>r. reported_ratio (overhead_row fs a b c mem ! 4) = Some r \<and> 0 \<le> r \<and> r \<le> 1"
    using pos by (simp add: overhead_row_def)
  have conv: "\<exists>r. reported_ratio (overhead_row fs a b c mem ! 6) = Some r \<and> 0 \<le> r
            \<and> (r \<le> 1 \<longleftrightarrow> b - c \<le> a)"
    using pos by (simp add: overhead_row_def)
  from gc conv show ?thesis
    unfolding row a_def b_def c_def by blast
qed

theorem overhead_ratio_bounds_witness:
  "run_result demo_env demo_args init_state = Inr ()
   \<and> arg_read demo_args
   \<and> arg_input_file demo_args = Some ''data.ion''
   \<and> py_int demo_env (arg_iterations demo_args) = Some 10
   \<and> 0 < sample_A demo_env init_state ''data.ion'' 10
   \<and> 0 \<le> sample_B demo_env init_state ''data.ion'' 10
   \<and> 0 \<le> sample_C demo_env init_state ''data.ion'' 10
   \<and> sample_B demo_env init_state ''data.ion'' 10 - sample_C demo_env init_state ''data.ion'' 10
        \<le> sample_A demo_env init_state ''data.ion'' 10
   \<and> (\<exists>r. reported_ratio (report_row (run_state demo_env demo_args init_state) ! 4) = Some r
          \<and> 0 \<le> r \<and> r \<le> 1)
   \<and> (\<exists>r. reported_ratio (report_row (run_state demo_env demo_args init_state) ! 6) = Some r
          \<and> 0 \<le> r \<and> r \<le> 1)"
proof -
  have h1: "run_result demo_env demo_args init_state = Inr ()"
    by (simp add: run_defs demo_env_def demo_args_def)
  have h2: "arg_read demo_args" by (simp add: demo_args_def default_args_def)
  have h3: "arg_input_file demo_args = Some ''data.ion''"
    by (simp add: demo_args_def default_args_def)
  have h4: "py_int demo_env (arg_iterations demo_args) = Some 10"
    by (simp add: demo_args_def default_args_def demo_env_def oracle_env_def int_of_decimal_def)
  have A: "sample_A demo_env init_state ''data.ion'' 10 = 1 / 2"
    and B: "sample_B demo_env init_state ''data.ion'' 10 = 2 / 5"
    and C: "sample_C demo_env init_state ''data.ion'' 10 = 9 / 20"
    by (simp_all add: sample_A_def sample_B_def sample_C_def elapsed_def demo_env_def
        oracle_env_def init_state_def)
  have h5: "0 < sample_A demo_env init_state ''data.ion'' 10"
    and h6: "0 \<le> sample_B demo_env init_state ''data.ion'' 10"
    and h7: "0 \<le> sample_C demo_env init_state ''data.ion'' 10"
    and h8: "sample_B demo_env init_state ''data.ion'' 10
        - sample_C demo_env init_state ''data.ion'' 10
        \<le> sample_A demo_env init_state ''data.ion'' 10"
    unfolding A B C by simp_all
  from overhead_ratio_bounds[OF h1 h2 h3 h4 h5 h6 h7] h8
  have "(\<exists>r. reported_ratio (report_row (run_state demo_env demo_args init_state) ! 4) = Some r
          \<and> 0 \<le> r \<and> r \<le> 1)
   \<and> (\<exists>r. reported_ratio (report_row (run_state demo_env demo_args init_state) ! 6) = Some r
          \<and> 0 \<le> r \<and> r \<le> 1)"
    by blast
  with h1 h2 h3 h4 h5 h6 h7 h8 show ?thesis by blast
qed

text \<open>
  C4. Every read run whose \<^verbatim>\<open>--iterations\<close> is the integer 0 fails and prints no report
  table. The read benchmark itself (the \<open>simpleIon\<close> path on a non-empty input file that
  \<^verbatim>\<open>stat\<close> finds, with an integer \<^verbatim>\<open>--warmups\<close> and the timer answering) fails with the
  division by zero of the first mean \<^verbatim>\<open>timeit.timeit(...) / iterations\<close>, which is the
  spec's \<open>InvalidArgumentError\<close> for zero iterations; it is raised after
  \<^verbatim>\<open>tracemalloc.start()\<close>, the \<^verbatim>\<open>stat\<close>, the three warm-ups and the first timed call.
\<close>

theorem zero_iterations_fail_without_table:
  assumes "arg_read args" and "py_int E (arg_iterations args) = Some 0"
  shows "isl (run_result E args s)
     \<and> stdout (run_state E args s) = stdout s
     \<and> (arg_input_file args = Some f \<and> f \<noteq> []
          \<and> py_int E (arg_warmups args) = Some w
          \<and> (falsy (arg_api args) \<or> arg_api args = Some (API_value SIMPLE_ION))
          \<and> st_size E f \<noteq> None
          \<and> timeit E (calls s) (generate_simpleion_load_test_code f False False)
                (generate_simpleion_load_setup True) w \<noteq> None
          \<and> timeit E (calls s + 1) (generate_simpleion_load_test_code f False False)
                (generate_simpleion_load_setup False) w \<noteq> None
          \<and> timeit E (calls s + 2) (generate_simpleion_load_test_code f False True)
                (generate_simpleion_load_setup False) w \<noteq> None
          \<and> timeit E (calls s + 3) (generate_simpleion_load_test_code f False False)
                (generate_simpleion_load_setup True) 0 \<noteq> None
        \<longrightarrow> (\<exists>e. run_result E args s = Inl e \<and> InvalidArgumentError e
                 \<and> e = ZeroDivisionError)
            \<and> tracing (run_state E args s)
            \<and> events (run_state E args s) =
                  events s @
                  [TracemallocStart, Stat f,
                   Timeit (generate_simpleion_load_test_code f False False)
                     (generate_simpleion_load_setup True) w,
                   Timeit (generate_simpleion_load_test_code f False False)
                     (generate_simpleion_load_setup False) w,
                   Timeit (generate_simpleion_load_test_code f False True)
                     (generate_simpleion_load_setup False) w,
                   Timeit (generate_simpleion_load_test_code f False False)
                     (generate_simpleion_load_setup True) 0])"
proof -
  note fails = zero_iterations_fail[OF assms, of s]
  from cli_fail_quiet[OF fails] have quiet: "stdout (run_state E args s) = stdout s" .
  have div: "(\<exists>e. run_result E args s = Inl e \<and> InvalidArgumentError e
                 \<and> e = ZeroDivisionError)
            \<and> tracing (run_state E args s)
            \<and> events (run_state E args s) =
                  events s @
                  [TracemallocStart, Stat f,
                   Timeit (generate_simpleion_load_test_code f False False)
                     (generate_simpleion_load_setup True) w,
                   Timeit (generate_simpleion_load_test_code f False False)
                     (generate_simpleion_load_setup False) w,
                   Timeit (generate_simpleion_load_test_code f False True)
                     (generate_simpleion_load_setup False) w,
                   Timeit (generate_simpleion_load_test_code f False False)
                     (generate_simpleion_load_setup True) 0]"
    if "arg_input_file args = Some f" and "f \<noteq> []"
      and "py_int E (arg_warmups args) = Some w"
      and "falsy (arg_api args) \<or> arg_api args = Some (API_value SIMPLE_ION)"
      and "st_size E f \<noteq> None"
      and "timeit E (calls s) (generate_simpleion_load_test_code f False False)
                (generate_simpleion_load_setup True) w \<noteq> None"
      and "timeit E (calls s + 1) (generate_simpleion_load_test_code f False False)
                (generate_simpleion_load_setup False) w \<noteq> None"
      and "timeit E (calls s + 2) (generate_simpleion_load_test_code f False True)
                (generate_simpleion_load_setup False) w \<noteq> None"
      and "timeit E (calls s + 3) (generate_simpleion_load_test_code f False False)
                (generate_simpleion_load_setup True) 0 \<noteq> None"
  proof -
    from that(5-9) obtain sz a1 a2 a3 a4 where "st_size E f = Some sz"
      and "timeit E (calls s) (generate_simpleion_load_test_code f False False)
                (generate_simpleion_load_setup True) w = Some a1"
      and "timeit E (calls s + 1) (generate_simpleion_load_test_code f False False)
                (generate_simpleion_load_setup False) w = Some a2"
      and "timeit E (calls s + 2) (generate_simpleion_load_test_code f False True)
                (generate_simpleion_load_setup False) w = Some a3"
      and "timeit E (calls s + 3) (generate_simpleion_load_test_code f False False)
                (generate_simpleion_load_setup True) 0 = Some a4"
      by blast
    from zero_iterations_division[OF assms(1) that(1,2) assms(2) that(3,4) this]
    show ?thesis by simp
  qed
  from fails quiet div show ?thesis by blast
qed

theorem zero_iterations_fail_without_table_witness:
  "arg_read (demo_args\<lparr>arg_iterations := ''0''\<rparr>)
   \<and> py_int demo_env (arg_iterations (demo_args\<lparr>arg_iterations := ''0''\<rparr>)) = Some 0
   \<and> arg_input_file (demo_args\<lparr>arg_iterations := ''0''\<rparr>) = Some ''data.ion''
   \<and> py_int demo_env (arg_warmups (demo_args\<lparr>arg_iterations := ''0''\<rparr>)) = Some 10
   \<and> falsy (arg_api (demo_args\<lparr>arg_iterations := ''0''\<rparr>))
   \<and> st_size demo_env ''data.ion'' \<noteq> None
   \<and> isl (run_result demo_env (demo_args\<lparr>arg_iterations := ''0''\<rparr>) init_state)
   \<and> stdout (run_state demo_env (demo_args\<lparr>arg_iterations := ''0''\<rparr>) init_state) = []
   \<and> run_result demo_env (demo_args\<lparr>arg_iterations := ''0''\<rparr>) init_state
        = Inl ZeroDivisionError
   \<and> InvalidArgumentError ZeroDivisionError
   \<and> tracing (run_state demo_env (demo_args\<lparr>arg_iterations := ''0''\<rparr>) init_state)
   \<and> length (events (run_state demo_env (demo_args\<lparr>arg_iterations := ''0''\<rparr>)
        init_state)) = 6"
proof -
  have h1: "arg_read (demo_args\<lparr>arg_iterations := ''0''\<rparr>)"
    by (simp add: demo_args_def default_args_def)
  have h2: "py_int demo_env (arg_iterations (demo_args\<lparr>arg_iterations := ''0''\<rparr>)) = Some 0"
    by (simp add: demo_env_def oracle_env_def int_of_decimal_def)
  have h3: "arg_input_file (demo_args\<lparr>arg_iterations := ''0''\<rparr>) = Some ''data.ion''"
    and h4: "py_int demo_env (arg_warmups (demo_args\<lparr>arg_iterations := ''0''\<rparr>)) = Some 10"
    and h5: "falsy (arg_api (demo_args\<lparr>arg_iterations := ''0''\<rparr>))"
    and h6: "st_size demo_env ''data.ion'' \<noteq> None"
    by (simp_all add: demo_args_def default_args_def demo_env_def oracle_env_def
        int_of_decimal_def falsy_def)
  have h7: "timeit demo_env (calls init_state + k) st su n \<noteq> None" if "k < 6"
    for k st su n
    using that by (simp add: demo_env_def oracle_env_def init_state_def)
  have e: "stdout init_state = []" "events init_state = []"
    by (simp_all add: stdout_def init_state_def)
  note t = zero_iterations_fail_without_table[OF h1 h2, of init_state "''data.ion''" 10,
      unfolded e]
  from t have a: "isl (run_result demo_env (demo_args\<lparr>arg_iterations := ''0''\<rparr>) init_state)"
    and b: "stdout (run_state demo_env (demo_args\<lparr>arg_iterations := ''0''\<rparr>) init_state) = []"
    by blast+
  have path: "(\<exists>e. run_result demo_env (demo_args\<lparr>arg_iterations := ''0''\<rparr>) init_state = Inl e
         \<and> InvalidArgumentError e \<and> e = ZeroDivisionError)
      \<and> tracing (run_state demo_env (demo_args\<lparr>arg_iterations := ''0''\<rparr>) init_state)
      \<and> events (run_state demo_env (demo_args\<lparr>arg_iterations := ''0''\<rparr>) init_state) =
          [] @ [TracemallocStart, Stat ''data.ion'',
            Timeit (generate_simpleion_load_test_code ''data.ion'' False False)
              (generate_simpleion_load_setup True) 10,
            Timeit (generate_simpleion_load_test_code ''data.ion'' False False)
              (generate_simpleion_load_setup False) 10,
            Timeit (generate_simpleion_load_test_code ''data.ion'' False True)
              (generate_simpleion_load_setup False) 10,
            Timeit (generate_simpleion_load_test_code ''data.ion'' False False)
              (generate_simpleion_load_setup True) 0]"
    apply (rule t[THEN conjunct2, THEN conjunct2, rule_format])
    using h3 h4 h5 h6 h7[of 0] h7[of 1] h7[of 2] h7[of 3] by simp
  from path have c: "run_result demo_env (demo_args\<lparr>arg_iterations := ''0''\<rparr>) init_state
        = Inl ZeroDivisionError"
    and d: "InvalidArgumentError ZeroDivisionError"
    and g: "tracing (run_state demo_env (demo_args\<lparr>arg_iterations := ''0''\<rparr>) init_state)"
    and l: "length (events (run_state demo_env (demo_args\<lparr>arg_iterations := ''0''\<rparr>)
        init_state)) = 6"
    by auto
  from h1 h2 h3 h4 h5 h6 a b c d g l show ?thesis by (intro conjI)
qed

text \<open>
  C5 says that \<^verbatim>\<open>read --api nonBlocking\<close> (or \<^verbatim>\<open>--api iterator\<close>) prints a not-supported
  notice instead of crashing. Both benchmark functions are \<^verbatim>\<open>pass\<close> and return
  \<^verbatim>\<open>None\<close>, which \<open>read_micro_benchmark_and_profiling\<close> unpacks into four names: on
  \<^verbatim>\<open>data.ion\<close> the run raises \<open>TypeError\<close> right after \<^verbatim>\<open>tracemalloc.start()\<close>, prints
  nothing (no notice, no table), leaves tracing switched on, and the process exits with
  status 1.
\<close>

theorem unimplemented_api_raises_type_error:
  "main_block demo_env (CmdRead (Some ''nonBlocking'') None None ''data.ion'') init_state
     = (1, init_state\<lparr>tracing := True, events := [TracemallocStart]\<rparr>)
   \<and> main_block demo_env (CmdRead (Some ''iterator'') None None ''data.ion'') init_state
     = (1, init_state\<lparr>tracing := True, events := [TracemallocStart]\<rparr>)
   \<and> run_result demo_env (demo_args\<lparr>arg_api := Some ''nonBlocking''\<rparr>) init_state
     = Inl TypeError
   \<and> run_result demo_env (demo_args\<lparr>arg_api := Some ''iterator''\<rparr>) init_state
     = Inl TypeError
   \<and> stdout (run_state demo_env (demo_args\<lparr>arg_api := Some ''nonBlocking''\<rparr>) init_state) = []
   \<and> stdout (run_state demo_env (demo_args\<lparr>arg_api := Some ''iterator''\<rparr>) init_state) = []"
  by (simp add: main_block_def run_defs demo_env_def demo_args_def)

text \<open>
  C6 says that \<^verbatim>\<open>write\<close> and \<^verbatim>\<open>generate\<close> print a not-supported notice and exit with
  status 0. Their usage patterns have no \<^verbatim>\<open><input_file>\<close>, so docopt gives \<^verbatim>\<open>None\<close> for
  it, and the first statement of \<open>ion_python_benchmark_cli\<close> raises
  \<^verbatim>\<open>Exception('Invalid input file')\<close> before the command is looked at: in every world and
  state either command line exits with status 1 and an unchanged state, so nothing is
  printed.
\<close>

theorem write_and_generate_raise:
  "main_block E CmdWrite s = (1, s)
   \<and> main_block E CmdGenerate s = (1, s)
   \<and> docopt CmdWrite = Some (default_args\<lparr>arg_write := True\<rparr>)
   \<and> docopt CmdGenerate = Some (default_args\<lparr>arg_generate := True\<rparr>)
   \<and> ion_python_benchmark_cli E (default_args\<lparr>arg_write := True\<rparr>) s
        = (Inl (Exception ''Invalid input file''), s)
   \<and> ion_python_benchmark_cli E (default_args\<lparr>arg_generate := True\<rparr>) s
        = (Inl (Exception ''Invalid input file''), s)"
  by (simp add: main_block_def cli_unparsed falsy_def default_args_def)

text \<open>
  C8 says that every read invocation whose \<^verbatim>\<open>--api\<close> value is not one of \<open>simpleIon\<close>,
  \<open>iterator\<close>, \<open>nonBlocking\<close> is rejected. The empty string is none of the three, and
  \<^verbatim>\<open>not api\<close> sends it to the \<open>simpleIon\<close> benchmark like an absent option:
  \<^verbatim>\<open>read --api "" data.ion\<close> makes the six \<^verbatim>\<open>timeit.timeit\<close> calls, prints the table and
  exits with status 0.
\<close>

theorem empty_api_runs_simpleion_counterexample:
  "[] \<noteq> API_value SIMPLE_ION \<and> [] \<noteq> API_value ITERATOR \<and> [] \<noteq> API_value NON_BLOCKING
   \<and> fst (main_block demo_env (CmdRead (Some []) None None ''data.ion'') init_state) = 0
   \<and> calls (snd (main_block demo_env (CmdRead (Some []) None None ''data.ion'') init_state)) = 6
   \<and> length (stdout (snd (main_block demo_env (CmdRead (Some []) None None ''data.ion'')
        init_state))) = 1"
  by (simp add: main_block_def run_defs demo_env_def)

text \<open>
  C8, as amended. Every read invocation whose \<^verbatim>\<open>--api\<close> value is non-empty and not one
  of \<open>simpleIon\<close>, \<open>iterator\<close>, \<open>nonBlocking\<close> fails before any benchmark runs (the
  state is unchanged) and the process exits with status 1. The error is
  \<^verbatim>\<open>Exception('Invalid API option <api>.')\<close> when the input file is non-empty and
  \<^verbatim>\<open>--iterations\<close> and \<^verbatim>\<open>--warmups\<close> are integers; otherwise it is the
  \<^verbatim>\<open>Exception('Invalid input file')\<close> or the \<open>ValueError\<close> of \<^verbatim>\<open>int\<close>, raised earlier.
\<close>

theorem unknown_api_rejected:
  assumes "a \<noteq> []" and "a \<noteq> API_value SIMPLE_ION" and "a \<noteq> API_value ITERATOR"
    and "a \<noteq> API_value NON_BLOCKING"
  shows "main_block E (CmdRead (Some a) wu it f) s = (1, s)
     \<and> (\<exists>e. run_result E (the (docopt (CmdRead (Some a) wu it f))) s = Inl e
            \<and> (e = Exception ''Invalid input file'' \<or> e = ValueError
              \<or> e = Exception (''Invalid API option '' @ a @ ''.''))
            \<and> (f \<noteq> []
                 \<and> py_int E (case it of None \<Rightarrow> ''10'' | Some v \<Rightarrow> v) \<noteq> None
                 \<and> py_int E (case wu of None \<Rightarrow> ''10'' | Some v \<Rightarrow> v) \<noteq> None
               \<longrightarrow> e = Exception (''Invalid API option '' @ a @ ''.'')))"
proof -
  define args where "args = the (docopt (CmdRead (Some a) wu it f))"
  have d: "docopt (CmdRead (Some a) wu it f) = Some args" by (simp add: args_def)
  have fields: "arg_read args" "arg_api args = Some a" "arg_input_file args = Some f"
    "arg_iterations args = (case it of None \<Rightarrow> ''10'' | Some v \<Rightarrow> v)"
    "arg_warmups args = (case wu of None \<Rightarrow> ''10'' | Some v \<Rightarrow> v)"
    by (simp_all add: args_def default_args_def)
  from invalid_api_rejected[OF assms fields(1,2), of E s] obtain e where
    r: "ion_python_benchmark_cli E args s = (Inl e, s)"
    and k: "e = Exception ''Invalid input file'' \<or> e = ValueError
              \<or> e = Exception (''Invalid API option '' @ a @ ''.'')"
    and m: "\<not> falsy (arg_input_file args) \<and> py_int E (arg_iterations args) \<noteq> None
                \<and> py_int E (arg_warmups args) \<noteq> None
              \<longrightarrow> e = Exception (''Invalid API option '' @ a @ ''.'')"
    by blast
  have mb: "main_block E (CmdRead (Some a) wu it f) s = (1, s)"
    unfolding main_block_def d by (simp add: r)
  have rr: "run_result E args s = Inl e" by (simp add: run_result_def r)
  from m have m': "f \<noteq> []
                 \<and> py_int E (case it of None \<Rightarrow> ''10'' | Some v \<Rightarrow> v) \<noteq> None
                 \<and> py_int E (case wu of None \<Rightarrow> ''10'' | Some v \<Rightarrow> v) \<noteq> None
               \<longrightarrow> e = Exception (''Invalid API option '' @ a @ ''.'')"
    by (simp add: fields falsy_def)
  from mb rr k m' show ?thesis
    unfolding args_def[symmetric] by blast
qed

theorem unknown_api_rejected_witness:
  "''bogus'' \<noteq> [] \<and> ''bogus'' \<noteq> API_value SIMPLE_ION \<and> ''bogus'' \<noteq> API_value ITERATOR
   \<and> ''bogus'' \<noteq> API_value NON_BLOCKING
   \<and> ''data.ion'' \<noteq> [] \<and> py_int demo_env ''10'' \<noteq> None
   \<and> main_block demo_env (CmdRead (Some ''bogus'') None None ''data.ion'') init_state
        = (1, init_state)
   \<and> run_result demo_env (the (docopt (CmdRead (Some ''bogus'') None None ''data.ion'')))
        init_state = Inl (Exception ''Invalid API option bogus.'')"
proof -
  have h: "''bogus'' \<noteq> []" "''bogus'' \<noteq> API_value SIMPLE_ION"
    "''bogus'' \<noteq> API_value ITERATOR" "''bogus'' \<noteq> API_value NON_BLOCKING"
    by simp_all
  have p: "''data.ion'' \<noteq> []" "py_int demo_env ''10'' \<noteq> None"
    by (simp_all add: demo_env_def oracle_env_def int_of_decimal_def)
  from unknown_api_rejected[OF h, of demo_env None None "''data.ion''" init_state] p
  have "main_block demo_env (CmdRead (Some ''bogus'') None None ''data.ion'') init_state
        = (1, init_state)"
    and "run_result demo_env (the (docopt (CmdRead (Some ''bogus'') None None ''data.ion'')))
        init_state = Inl (Exception ''Invalid API option bogus.'')"
    by auto
  with h p show ?thesis by (intro conjI)
qed

text \<open>
  C9 says that peak memory is tracked during the timed execution of variant A only and
  never covers the warm-ups. \<^verbatim>\<open>tracemalloc.start()\<close> is called before the benchmark
  function, whose first \<^verbatim>\<open>timeit.timeit\<close> call is a warm-up. In \<open>demo_env\<close> with three
  warm-ups, the warm-up of variant A reaches 5 MB and its timed run 3 MB, and the report
  shows 5 MB.
\<close>

theorem peak_covers_warm_ups_counterexample:
  "run_result demo_env (demo_args\<lparr>arg_warmups := ''3''\<rparr>) init_state = Inr ()
   \<and> take 3 (events (run_state demo_env (demo_args\<lparr>arg_warmups := ''3''\<rparr>) init_state))
        = [TracemallocStart, Stat ''data.ion'',
           Timeit (generate_simpleion_load_test_code ''data.ion'' False False)
             (generate_simpleion_load_setup True) 3]
   \<and> high_water demo_env 0 (generate_simpleion_load_test_code ''data.ion'' False False)
        (generate_simpleion_load_setup True) 3 = 5242880
   \<and> high_water demo_env 3 (generate_simpleion_load_test_code ''data.ion'' False False)
        (generate_simpleion_load_setup True) 10 = 3145728
   \<and> report_row (run_state demo_env (demo_args\<lparr>arg_warmups := ''3''\<rparr>) init_state) ! 7
        = Sci 5
   \<and> Sci 5 \<noteq> Sci (3145728 / 1048576)"
  by (simp add: run_defs demo_env_def demo_args_def)

text \<open>
  C9, as amended. In every successful read run, tracking starts immediately before the
  benchmark function is called and the peak is read, and tracking stopped, immediately
  after it returns: the tracked region is the \<^verbatim>\<open>stat\<close> of the file, the three warm-ups
  and the three timed runs, in this order, and nothing else. The reported
  \<open>memory_usage_peak\<close> is the largest high-water mark of these six
  \<^verbatim>\<open>timeit.timeit\<close> calls, divided by 1,048,576 (when tracing was off before the run).
\<close>

theorem tracking_covers_whole_benchmark:
  assumes "run_result E args s = Inr ()" and "arg_read args"
    and "arg_input_file args = Some f" and "py_int E (arg_iterations args) = Some n"
    and "py_int E (arg_warmups args) = Some w"
  shows "events (run_state E args s) =
           events s @ [TracemallocStart] @ benchmark_events f w n @
           [GetTracedMemory, TracemallocStop,
            Print (Table [header, report_row (run_state E args s)])]
     \<and> report_row (run_state E args s) ! 7 =
           Sci (real (foldl max (if tracing s then traced_peak s else 0)
                  (run_high_waters E s f w n)) / 1048576)
     \<and> (\<not> tracing s \<longrightarrow>
          report_row (run_state E args s) ! 7 =
            Sci (real (Max (set (run_high_waters E s f w n))) / 1048576))"
proof -
  from read_report[OF assms(1-4)] assms(5) obtain sz where
    e: "events (run_state E args s) =
           events s @ [TracemallocStart] @ benchmark_events f w n @
           [GetTracedMemory, TracemallocStop,
            Print (Table [header, report_row (run_state E args s)])]"
    and row: "report_row (run_state E args s) =
           overhead_row (real sz / real BYTES_TO_MB) (sample_A E s f n) (sample_B E s f n)
             (sample_C E s f n)
             (real (foldl max (if tracing s then traced_peak s else 0)
                (run_high_waters E s f w n)) / real BYTES_TO_MB)"
    by auto
  have c7: "report_row (run_state E args s) ! 7 =
           Sci (real (foldl max (if tracing s then traced_peak s else 0)
                  (run_high_waters E s f w n)) / 1048576)"
    by (subst row) (simp add: overhead_row_def BYTES_TO_MB_def)
  have mx: "foldl max 0 (run_high_waters E s f w n) = Max (set (run_high_waters E s f w n))"
    unfolding foldl_max_Max by (simp add: run_high_waters_def)
  from e c7 mx show ?thesis by simp
qed

theorem tracking_covers_whole_benchmark_witness:
  "run_result demo_env (demo_args\<lparr>arg_warmups := ''3''\<rparr>) init_state = Inr ()
   \<and> arg_read (demo_args\<lparr>arg_warmups := ''3''\<rparr>)
   \<and> arg_input_file (demo_args\<lparr>arg_warmups := ''3''\<rparr>) = Some ''data.ion''
   \<and> py_int demo_env (arg_iterations (demo_args\<lparr>arg_warmups := ''3''\<rparr>)) = Some 10
   \<and> py_int demo_env (arg_warmups (demo_args\<lparr>arg_warmups := ''3''\<rparr>)) = Some 3
   \<and> \<not> tracing init_state
   \<and> report_row (run_state demo_env (demo_args\<lparr>arg_warmups := ''3''\<rparr>) init_state) ! 7
       = Sci (real (Max (set (run_high_waters demo_env init_state ''data.ion'' 3 10))) / 1048576)
   \<and> Max (set (run_high_waters demo_env init_state ''data.ion'' 3 10)) = 5242880"
proof -
  have h1: "run_result demo_env (demo_args\<lparr>arg_warmups := ''3''\<rparr>) init_state = Inr ()"
    by (simp add: run_defs demo_env_def demo_args_def)
  have h2: "arg_read (demo_args\<lparr>arg_warmups := ''3''\<rparr>)"
    and h3: "arg_input_file (demo_args\<lparr>arg_warmups := ''3''\<rparr>) = Some ''data.ion''"
    and h4: "py_int demo_env (arg_iterations (demo_args\<lparr>arg_warmups := ''3''\<rparr>)) = Some 10"
    and h5: "py_int demo_env (arg_warmups (demo_args\<lparr>arg_warmups := ''3''\<rparr>)) = Some 3"
    and h6: "\<not> tracing init_state"
    by (simp_all add: demo_args_def default_args_def demo_env_def oracle_env_def
        int_of_decimal_def init_state_def)
  have m: "Max (set (run_high_waters demo_env init_state ''data.ion'' 3 10)) = 5242880"
    by (simp add: run_high_waters_def high_water_def demo_env_def oracle_env_def
        init_state_def)
  from tracking_covers_whole_benchmark[OF h1 h2 h3 h4 h5] h6
  have "report_row (run_state demo_env (demo_args\<lparr>arg_warmups := ''3''\<rparr>) init_state) ! 7
       = Sci (real (Max (set (run_high_waters demo_env init_state ''data.ion'' 3 10))) / 1048576)"
    by blast
  with h1 h2 h3 h4 h5 h6 m show ?thesis by (intro conjI)
qed

end
